theory Spec2Isabelle
  imports Main
begin

section \<open>Python values\<close>

text \<open>
  The handler of \<^verbatim>\<open>src/main.py\<close> moves JSON-shaped Python values around: the request
  body it builds and the reply that \<^verbatim>\<open>requests.post(...).json()\<close> parses. A float is kept
  as mantissa and exponent (\<open>m * 2 ^ e\<close>) or one of the three non-finite values the
  \<^verbatim>\<open>json\<close> module accepts; only its truth value matters here. A \<^verbatim>\<open>dict\<close> is an association
  list in insertion order, the order \<^verbatim>\<open>items()\<close> iterates in.
\<close>

datatype pyfloat = FloatVal int int | FloatInf | FloatNegInf | FloatNaN

datatype pyval =
    PNone
  | PBool bool
  | PInt int
  | PFloat pyfloat
  | PStr string
  | PList "pyval list"
  | PDict "(string \<times> pyval) list"

fun float_truthy :: "pyfloat \<Rightarrow> bool" where
  "float_truthy (FloatVal m e) = (m \<noteq> 0)"
| "float_truthy FloatInf = True"
| "float_truthy FloatNegInf = True"
| "float_truthy FloatNaN = True"

text \<open>Python's truth value testing, as \<^verbatim>\<open>if response.get('building_data'):\<close> applies it.\<close>

fun truthy :: "pyval \<Rightarrow> bool" where
  "truthy PNone = False"
| "truthy (PBool b) = b"
| "truthy (PInt i) = (i \<noteq> 0)"
| "truthy (PFloat f) = float_truthy f"
| "truthy (PStr s) = (s \<noteq> [])"
| "truthy (PList xs) = (xs \<noteq> [])"
| "truthy (PDict kvs) = (kvs \<noteq> [])"

fun type_name :: "pyval \<Rightarrow> string" where
  "type_name PNone = ''NoneType''"
| "type_name (PBool b) = ''bool''"
| "type_name (PInt i) = ''int''"
| "type_name (PFloat f) = ''float''"
| "type_name (PStr s) = ''str''"
| "type_name (PList xs) = ''list''"
| "type_name (PDict kvs) = ''dict''"

section \<open>Exceptions\<close>

text \<open>
  An exception is an instance of a subclass of \<^verbatim>\<open>Exception\<close>, the ones \<^verbatim>\<open>except Exception\<close>
  catches: its class name and the text \<^verbatim>\<open>str(e)\<close> that an f-string interpolates.
\<close>

datatype exn = Exn (exn_class: string) (exn_text: string)

definition quoted :: "string \<Rightarrow> string" where
  "quoted s = [CHR 0x27] @ s @ [CHR 0x27]"

definition attribute_error :: "pyval \<Rightarrow> string \<Rightarrow> exn" where
  "attribute_error v attr =
     Exn ''AttributeError'' (quoted (type_name v) @ '' object has no attribute '' @ quoted attr)"

text \<open>\<^verbatim>\<open>xs[0]\<close> on a list.\<close>

definition getitem0 :: "'a list \<Rightarrow> exn + 'a" where
  "getitem0 xs =
     (case xs of [] \<Rightarrow> Inl (Exn ''IndexError'' ''list index out of range'') | x # _ \<Rightarrow> Inr x)"

text \<open>\<^verbatim>\<open>v.items()\<close>: only a dict has the method.\<close>

definition py_items :: "pyval \<Rightarrow> exn + (string \<times> pyval) list" where
  "py_items v = (case v of PDict kvs \<Rightarrow> Inr kvs | _ \<Rightarrow> Inl (attribute_error v ''items''))"

text \<open>\<^verbatim>\<open>v.get(k)\<close>: the value under \<open>k\<close>, \<^verbatim>\<open>None\<close> when the key is absent.\<close>

definition py_get :: "pyval \<Rightarrow> string \<Rightarrow> exn + pyval" where
  "py_get v k =
     (case v of
        PDict kvs \<Rightarrow> Inr (case map_of kvs k of None \<Rightarrow> PNone | Some x \<Rightarrow> x)
      | _ \<Rightarrow> Inl (attribute_error v ''get''))"

text \<open>\<^verbatim>\<open>v[k]\<close> with a string key.\<close>

definition py_subscript :: "pyval \<Rightarrow> string \<Rightarrow> exn + pyval" where
  "py_subscript v k =
     (case v of
        PDict kvs \<Rightarrow> (case map_of kvs k of None \<Rightarrow> Inl (Exn ''KeyError'' (quoted k)) | Some x \<Rightarrow> Inr x)
      | PStr s \<Rightarrow> Inl (Exn ''TypeError'' (''string indices must be integers, not '' @ quoted ''str''))
      | PList xs \<Rightarrow> Inl (Exn ''TypeError'' ''list indices must be integers or slices, not str'')
      | _ \<Rightarrow> Inl (Exn ''TypeError'' (quoted (type_name v) @ '' object is not subscriptable'')))"

text \<open>
  \<^verbatim>\<open>json.loads(json.dumps(data))\<close>: every value of \<^typ>\<open>pyval\<close> is serialisable and parses
  back to itself.
\<close>

definition json_loads_dumps :: "pyval \<Rightarrow> pyval" where
  "json_loads_dumps v = v"

section \<open>Effects\<close>

text \<open>
  What a run does to the outside is recorded in order: lines printed, the HTTP request, the
  file written, and the calls of the platform's reporting methods. An event records the
  call and its arguments, whether or not the call then raises.
\<close>

datatype print_arg =
    Str string
  | Obj pyval
  | TypeOf string
  | KeyVal string pyval

datatype event =
    Print "print_arg list"
  | HttpPost string pyval "(string \<times> string) list"
  | FileWrite string string
  | StoreFileResult string
  | MarkRunSuccess string
  | MarkRunFailed string

record world =
  trace :: "event list"
  files :: "string \<Rightarrow> string option"

type_synonym 'a action = "world \<Rightarrow> (exn + 'a) \<times> world"

definition ok :: "'a \<Rightarrow> 'a action" where
  "ok x w = (Inr x, w)"

definition throw :: "exn \<Rightarrow> 'a action" where
  "throw e w = (Inl e, w)"

definition and_then :: "'a action \<Rightarrow> ('a \<Rightarrow> 'b action) \<Rightarrow> 'b action" where
  "and_then m f w = (case m w of (Inl e, w') \<Rightarrow> (Inl e, w') | (Inr x, w') \<Rightarrow> f x w')"

text \<open>\<^verbatim>\<open>try: m  except Exception as e: h e\<close>\<close>

definition try_except :: "unit action \<Rightarrow> (exn \<Rightarrow> unit action) \<Rightarrow> unit action" where
  "try_except m h w = (case m w of (Inl e, w') \<Rightarrow> h e w' | (Inr x, w') \<Rightarrow> (Inr x, w'))"

definition lift :: "exn + 'a \<Rightarrow> 'a action" where
  "lift r w = (r, w)"

definition emit :: "event \<Rightarrow> world \<Rightarrow> world" where
  "emit ev w = w\<lparr>trace := trace w @ [ev]\<rparr>"

text \<open>
  Standard output is a UTF-8 text stream. A string is the list of the bytes of its UTF-8
  form. The strings of the inputs and of the context have passed the platform's validation
  and are text; a string of the API's reply may hold a lone surrogate (JSON can spell one,
  as \<^verbatim>\<open>"\ud83d"\<close>), which is kept as the three bytes of its generalised UTF-8 form:
  \<open>0xED\<close>, then a byte from \<open>0xA0\<close> to \<open>0xBF\<close>, then a continuation byte. No text has
  \<open>0xED\<close> followed by such a byte.
\<close>

fun has_surrogate :: "string \<Rightarrow> bool" where
  "has_surrogate [] = False"
| "has_surrogate [a] = False"
| "has_surrogate (a # b # cs) =
     ((a = CHR 0xED \<and> 0xA0 \<le> (of_char b :: nat) \<and> (of_char b :: nat) \<le> 0xBF)
      \<or> has_surrogate (b # cs))"

text \<open>
  What \<^verbatim>\<open>print\<close> cannot write. A \<^verbatim>\<open>str\<close> of the reply is written as it is, and the stream
  refuses a lone surrogate; any other value is written as its \<^verbatim>\<open>repr\<close>, which escapes the
  surrogates of the strings inside it. \<open>Str\<close> carries literals and validated text.
\<close>

fun raw_surrogate :: "pyval \<Rightarrow> bool" where
  "raw_surrogate (PStr s) = has_surrogate s"
| "raw_surrogate _ = False"

fun unprintable :: "print_arg \<Rightarrow> bool" where
  "unprintable (Str s) = False"
| "unprintable (Obj v) = raw_surrogate v"
| "unprintable (TypeOf n) = False"
| "unprintable (KeyVal k v) = (has_surrogate k \<or> raw_surrogate v)"

text \<open>
  \<^verbatim>\<open>print(*args)\<close>: the arguments are written in order, and the first one the stream
  cannot encode raises the \<^verbatim>\<open>UnicodeEncodeError\<close> that \<open>encode_error\<close> gives for it.
\<close>

definition py_print :: "(print_arg \<Rightarrow> exn) \<Rightarrow> print_arg list \<Rightarrow> unit action" where
  "py_print encode_error args w =
     ((case find unprintable args of None \<Rightarrow> Inr () | Some a \<Rightarrow> Inl (encode_error a)),
      emit (Print args) w)"

text \<open>A call of a method that returns nothing: \<open>None\<close> when it returns, the exception when it raises.\<close>

definition call :: "event \<Rightarrow> exn option \<Rightarrow> unit action" where
  "call ev r w = ((case r of None \<Rightarrow> Inr () | Some e \<Rightarrow> Inl e), emit ev w)"

fun for_each :: "'a list \<Rightarrow> ('a \<Rightarrow> unit action) \<Rightarrow> unit action" where
  "for_each [] body = ok ()"
| "for_each (x # xs) body = and_then (body x) (\<lambda>_. for_each xs body)"

text \<open>
  \<^verbatim>\<open>with open(path, "w") as fp: fp.write(text)\<close>. Opening may fail and leave the file
  system as it was; once the file is open it exists, and a failure of the write or of the
  close leaves some text in it.
\<close>

datatype file_outcome = OpenFails exn | WriteFails exn string | Written

definition write_file :: "file_outcome \<Rightarrow> string \<Rightarrow> string \<Rightarrow> unit action" where
  "write_file r path text w =
     (let w1 = emit (FileWrite path text) w in
      case r of
        OpenFails e \<Rightarrow> (Inl e, w1)
      | WriteFails e partial \<Rightarrow> (Inl e, w1\<lparr>files := (files w1)(path \<mapsto> partial)\<rparr>)
      | Written \<Rightarrow> (Inr (), w1\<lparr>files := (files w1)(path \<mapsto> text)\<rparr>))"

section \<open>The platform and the libraries\<close>

text \<open>
  The handler calls code it does not own: \<^verbatim>\<open>requests\<close>, \<^verbatim>\<open>pandas\<close>, the file system and the
  methods of the automation context. Each is a parameter that says, for the arguments
  of a call, whether the call returns (and what) or raises. The handler calls each of
  them at most once in a run, so a function of the arguments describes any behaviour
  a run can meet. \<open>stdout_encode_error\<close> is the exception that standard output raises
  for an argument of \<^verbatim>\<open>print\<close> it cannot encode.
\<close>

record 'df runtime =
  requests_post_json :: "string \<Rightarrow> pyval \<Rightarrow> (string \<times> string) list \<Rightarrow> exn + pyval"
  pd_DataFrame :: "pyval \<Rightarrow> exn + 'df"
  df_to_html :: "'df \<Rightarrow> exn + string"
  open_write :: "string \<Rightarrow> string \<Rightarrow> file_outcome"
  stdout_encode_error :: "print_arg \<Rightarrow> exn"

record version_creation_trigger_payload =
  model_id :: string
  version_id :: string

record version_creation_trigger =
  payload :: version_creation_trigger_payload

record automation_run_data =
  project_id :: string
  speckle_server_url :: string
  triggers :: "version_creation_trigger list"

record automation_context =
  automation_run_data :: automation_run_data
  store_file_result :: "string \<Rightarrow> exn option"
  mark_run_success :: "string \<Rightarrow> exn option"
  mark_run_failed :: "string \<Rightarrow> exn option"

datatype secret_str = SecretStr string

fun get_secret_value :: "secret_str \<Rightarrow> string" where
  "get_secret_value (SecretStr s) = s"

record function_inputs =
  username :: string
  speckle_token :: secret_str
  api_url :: secret_str
  api_token :: secret_str

section \<open>The handler\<close>

text \<open>Lines 50 to 56: the request body.\<close>

definition request_data ::
  "automation_run_data \<Rightarrow> version_creation_trigger_payload \<Rightarrow> function_inputs \<Rightarrow> pyval" where
  "request_data ard pl function_inputs =
     PDict [(''datafusr_config'', PDict [
       (''project_name'', PStr ''MEPPostprocessingProject''),
       (''source_url'', PStr (speckle_server_url ard @ ''/projects/'' @ project_id ard
                               @ ''/models/'' @ model_id pl @ ''@'' @ version_id pl)),
       (''speckle_token'', PStr (get_secret_value (speckle_token function_inputs)))])]"

text \<open>Lines 59 to 66: the request headers.\<close>

definition request_headers :: "function_inputs \<Rightarrow> (string \<times> string) list" where
  "request_headers function_inputs =
     [(''content-type'', ''application/json''),
      (''enable-logging'', ''False''),
      (''source-application'', ''RoomBook''),
      (''return-type'', ''tables''),
      (''username'', username function_inputs),
      (''token'', get_secret_value (api_token function_inputs))]"

text \<open>Line 79: the URL.\<close>

definition request_url :: "function_inputs \<Rightarrow> string" where
  "request_url function_inputs = get_secret_value (api_url function_inputs) @ ''/from_datafusr''"

text \<open>Lines 73 to 76: the headers are printed, as a dict and then one by one.\<close>

definition print_headers ::
  "(print_arg \<Rightarrow> exn) \<Rightarrow> (string \<times> string) list \<Rightarrow> unit action" where
  "print_headers encode_error headers =
     and_then (py_print encode_error
                 [Str ''Headers:'', Obj (PDict (map (\<lambda>(k, v). (k, PStr v)) headers))]) (\<lambda>_.
     and_then (py_print encode_error [Str ''Headers type:'', TypeOf ''dict'']) (\<lambda>_.
     for_each headers (\<lambda>(key, val). py_print encode_error [Str (key @ '': '' @ val)])))"

text \<open>
  Lines 88 to 91: the reply is printed, outside the \<^verbatim>\<open>try\<close>; \<^verbatim>\<open>response.items()\<close> needs a
  dict, and \<^verbatim>\<open>f'{key}: {val}'\<close> is the key and the value's \<^verbatim>\<open>str\<close>.
\<close>

definition print_response :: "(print_arg \<Rightarrow> exn) \<Rightarrow> pyval \<Rightarrow> unit action" where
  "print_response encode_error response =
     and_then (py_print encode_error [Str ''Response:'', Obj response]) (\<lambda>_.
     and_then (py_print encode_error [Str ''Response type:'', TypeOf (type_name response)]) (\<lambda>_.
     and_then (lift (py_items response)) (\<lambda>its.
     for_each its (\<lambda>(key, val). py_print encode_error [KeyVal key val]))))"

text \<open>Lines 99 to 112: the body of the \<^verbatim>\<open>try\<close>.\<close>

definition render_and_store :: "'df runtime \<Rightarrow> automation_context \<Rightarrow> pyval \<Rightarrow> unit action" where
  "render_and_store rt automate_context response =
     and_then (lift (py_subscript response ''building_data'')) (\<lambda>building_data.
     and_then (lift (pd_DataFrame rt building_data)) (\<lambda>building_data_df.
     and_then (lift (df_to_html rt building_data_df)) (\<lambda>building_data_html.
     and_then (write_file (open_write rt ''building_data.html'' building_data_html)
                 ''building_data.html'' building_data_html) (\<lambda>_.
     and_then (call (StoreFileResult ''building_data_html'')
                 (store_file_result automate_context ''building_data_html'')) (\<lambda>_.
     call (MarkRunSuccess ''Building data table successfully generated!'')
       (mark_run_success automate_context ''Building data table successfully generated!''))))))"

text \<open>Lines 94 to 122: the reply is handled.\<close>

definition handle_response :: "'df runtime \<Rightarrow> automation_context \<Rightarrow> pyval \<Rightarrow> unit action" where
  "handle_response rt automate_context response =
     and_then (lift (py_get response ''building_data'')) (\<lambda>building_data.
     if truthy building_data then
       try_except (render_and_store rt automate_context response) (\<lambda>e.
         call (MarkRunFailed (''Automation failed: '' @ exn_text e))
           (mark_run_failed automate_context (''Automation failed: '' @ exn_text e)))
     else
       call (MarkRunFailed ''Automation failed: No building data could be retrieved!'')
         (mark_run_failed automate_context
            ''Automation failed: No building data could be retrieved!''))"

text \<open>Lines 32 to 122: \<^verbatim>\<open>automate_function\<close>.\<close>

definition automate_function ::
  "'df runtime \<Rightarrow> automation_context \<Rightarrow> function_inputs \<Rightarrow> unit action" where
  "automate_function rt automate_context function_inputs =
     (let ard = automation_run_data automate_context in
      and_then (lift (getitem0 (triggers (automation_run_data automate_context)))) (\<lambda>trigger.
      let pl = payload trigger;
          data = request_data ard pl function_inputs;
          headers = request_headers function_inputs
      in
      and_then (print_headers (stdout_encode_error rt) headers) (\<lambda>_.
      let url = request_url function_inputs in
      and_then (py_print (stdout_encode_error rt) [Str ''URL:'', Str url]) (\<lambda>_.
      and_then (\<lambda>w. (requests_post_json rt url (json_loads_dumps data) headers,
                        emit (HttpPost url (json_loads_dumps data) headers) w)) (\<lambda>response.
      and_then (print_response (stdout_encode_error rt) response) (\<lambda>_.
      handle_response rt automate_context response))))))"

text \<open>A run starts with nothing recorded and some files on disk.\<close>

definition initial_world :: "(string \<Rightarrow> string option) \<Rightarrow> world" where
  "initial_world fs = \<lparr>trace = [], files = fs\<rparr>"

definition run ::
  "'df runtime \<Rightarrow> automation_context \<Rightarrow> function_inputs \<Rightarrow> (string \<Rightarrow> string option)
     \<Rightarrow> (exn + unit) \<times> world" where
  "run rt automate_context function_inputs fs =
     automate_function rt automate_context function_inputs (initial_world fs)"

section \<open>Observations on a run\<close>

fun is_file_write :: "event \<Rightarrow> bool" where
  "is_file_write (FileWrite path text) = True"
| "is_file_write _ = False"

fun is_store :: "event \<Rightarrow> bool" where
  "is_store (StoreFileResult path) = True"
| "is_store _ = False"

fun is_success :: "event \<Rightarrow> bool" where
  "is_success (MarkRunSuccess msg) = True"
| "is_success _ = False"

fun is_failed :: "event \<Rightarrow> bool" where
  "is_failed (MarkRunFailed msg) = True"
| "is_failed _ = False"

fun is_print :: "event \<Rightarrow> bool" where
  "is_print (Print args) = True"
| "is_print _ = False"

text \<open>What a run did besides printing.\<close>

definition actions :: "(exn + unit) \<times> world \<Rightarrow> event list" where
  "actions r = filter (\<lambda>ev. \<not> is_print ev) (trace (snd r))"

definition raised :: "(exn + unit) \<times> world \<Rightarrow> exn option" where
  "raised r = (case fst r of Inl e \<Rightarrow> Some e | Inr _ \<Rightarrow> None)"

text \<open>The HTTP requests of a trace, in order: URL, JSON body and headers of each.\<close>

fun requests_of :: "event list \<Rightarrow> (string \<times> pyval \<times> (string \<times> string) list) list" where
  "requests_of [] = []"
| "requests_of (HttpPost url body headers # evs) = (url, body, headers) # requests_of evs"
| "requests_of (Print args # evs) = requests_of evs"
| "requests_of (FileWrite path text # evs) = requests_of evs"
| "requests_of (StoreFileResult path # evs) = requests_of evs"
| "requests_of (MarkRunSuccess msg # evs) = requests_of evs"
| "requests_of (MarkRunFailed msg # evs) = requests_of evs"

definition posted_urls :: "(exn + unit) \<times> world \<Rightarrow> string list" where
  "posted_urls r = map fst (requests_of (trace (snd r)))"

definition posted_bodies :: "(exn + unit) \<times> world \<Rightarrow> pyval list" where
  "posted_bodies r = map (fst \<circ> snd) (requests_of (trace (snd r)))"

definition posted_headers :: "(exn + unit) \<times> world \<Rightarrow> (string \<times> string) list list" where
  "posted_headers r = map (snd \<circ> snd) (requests_of (trace (snd r)))"

text \<open>The calls of \<^verbatim>\<open>mark_run_success\<close> and \<^verbatim>\<open>mark_run_failed\<close> of a run, in order.\<close>

definition outcome_calls :: "(exn + unit) \<times> world \<Rightarrow> event list" where
  "outcome_calls r = filter (\<lambda>ev. is_success ev \<or> is_failed ev) (trace (snd r))"

text \<open>
  The loop of line 91 can print every item of the reply: no key and no string value holds
  a lone surrogate.
\<close>

definition items_printable :: "(string \<times> pyval) list \<Rightarrow> bool" where
  "items_printable kvs = list_all (\<lambda>(key, val). \<not> unprintable (KeyVal key val)) kvs"

text \<open>The two counts of the invariant: one request sent, one outcome reported.\<close>

definition exactly_one_post :: "(exn + unit) \<times> world \<Rightarrow> bool" where
  "exactly_one_post r \<longleftrightarrow> length (requests_of (trace (snd r))) = 1"

definition exactly_one_outcome :: "(exn + unit) \<times> world \<Rightarrow> bool" where
  "exactly_one_outcome r \<longleftrightarrow> length (outcome_calls r) = 1"

text \<open>What a call that returns nothing hands back to its caller.\<close>

definition report :: "exn option \<Rightarrow> exn + unit" where
  "report r = (case r of None \<Rightarrow> Inr () | Some e \<Rightarrow> Inl e)"

text \<open>
  The request a run sends once it has a trigger, and what \<^verbatim>\<open>requests.post(...).json()\<close>
  answers to it.
\<close>

definition sent_request ::
  "automation_context \<Rightarrow> version_creation_trigger \<Rightarrow> function_inputs \<Rightarrow> event" where
  "sent_request ctx tr inp =
     HttpPost (request_url inp) (request_data (automation_run_data ctx) (payload tr) inp)
       (request_headers inp)"

definition post_reply ::
  "'df runtime \<Rightarrow> automation_context \<Rightarrow> version_creation_trigger \<Rightarrow> function_inputs
     \<Rightarrow> exn + pyval" where
  "post_reply rt ctx tr inp =
     requests_post_json rt (request_url inp)
       (request_data (automation_run_data ctx) (payload tr) inp) (request_headers inp)"

text \<open>
  The exception \<open>e\<close> is raised by one of the four steps of the rendering branch that come
  before the success report: dataframe construction, HTML conversion, file write, file
  registration.
\<close>

definition rendering_raises ::
  "'df runtime \<Rightarrow> automation_context \<Rightarrow> pyval \<Rightarrow> exn \<Rightarrow> bool" where
  "rendering_raises rt automate_context building_data e =
     (case pd_DataFrame rt building_data of
        Inl e1 \<Rightarrow> e1 = e
      | Inr df \<Rightarrow>
          (case df_to_html rt df of
             Inl e2 \<Rightarrow> e2 = e
           | Inr html \<Rightarrow>
               (case open_write rt ''building_data.html'' html of
                  OpenFails e3 \<Rightarrow> e3 = e
                | WriteFails e3 partial \<Rightarrow> e3 = e
                | Written \<Rightarrow> store_file_result automate_context ''building_data_html'' = Some e)))"

section \<open>The headers as the specification writes them\<close>

text \<open>
  The specification's section on external interfaces lists the headers as
  \<^verbatim>\<open>{content-type: application/json, enable-logging: false, source-application: RoomBook,
  return-type: tables, username, token}\<close>. This definition follows those words; the handler's
  own headers are \<^const>\<open>request_headers\<close>.
\<close>

definition spec_headers :: "string \<Rightarrow> string \<Rightarrow> (string \<times> string) list" where
  "spec_headers user token =
     [(''content-type'', ''application/json''),
      (''enable-logging'', ''false''),
      (''source-application'', ''RoomBook''),
      (''return-type'', ''tables''),
      (''username'', user),
      (''token'', token)]"

section \<open>Concrete runs\<close>

text \<open>
  A context with one trigger, inputs, and a runtime in which every call returns: the API
  answers \<^verbatim>\<open>{"building_data": {"col": [1, 2]}}\<close> and the table renders. The variants
  change one collaborator each.
\<close>

definition demo_run_data :: automation_run_data where
  "demo_run_data =
     \<lparr>project_id = ''p1'', speckle_server_url = ''https://speckle.example'',
      triggers = [\<lparr>payload = \<lparr>model_id = ''m1'', version_id = ''v1''\<rparr>\<rparr>]\<rparr>"

definition returns :: "string \<Rightarrow> exn option" where
  "returns arg = None"

definition demo_context :: automation_context where
  "demo_context =
     \<lparr>automation_run_data = demo_run_data, store_file_result = returns,
      mark_run_success = returns, mark_run_failed = returns\<rparr>"

definition demo_inputs :: function_inputs where
  "demo_inputs =
     \<lparr>username = ''alice'', speckle_token = SecretStr ''speckle-secret'',
      api_url = SecretStr ''https://api.example'', api_token = SecretStr ''api-secret''\<rparr>"

definition demo_reply :: pyval where
  "demo_reply = PDict [(''building_data'', PDict [(''col'', PList [PInt 1, PInt 2])])]"

definition demo_html :: string where
  "demo_html = ''<table><tr><th>col</th></tr><tr><td>1</td></tr><tr><td>2</td></tr></table>''"

definition demo_runtime :: "pyval runtime" where
  "demo_runtime =
     \<lparr>requests_post_json = (\<lambda>url body headers. Inr demo_reply),
      pd_DataFrame = (\<lambda>v. Inr v),
      df_to_html = (\<lambda>df. Inr demo_html),
      open_write = (\<lambda>path text. Written),
      stdout_encode_error = (\<lambda>arg. Exn ''UnicodeEncodeError'' ''surrogates not allowed'')\<rparr>"

definition no_files :: "string \<Rightarrow> string option" where
  "no_files path = None"

text \<open>No trigger in the run data.\<close>

definition demo_context_no_trigger :: automation_context where
  "demo_context_no_trigger =
     demo_context\<lparr>automation_run_data := demo_run_data\<lparr>triggers := []\<rparr>\<rparr>"

text \<open>The network is down.\<close>

definition demo_runtime_offline :: "pyval runtime" where
  "demo_runtime_offline =
     demo_runtime\<lparr>requests_post_json :=
       (\<lambda>url body headers. Inl (Exn ''ConnectionError'' ''connection refused''))\<rparr>"

text \<open>The API answers with a JSON array.\<close>

definition demo_runtime_array :: "pyval runtime" where
  "demo_runtime_array =
     demo_runtime\<lparr>requests_post_json := (\<lambda>url body headers. Inr (PList [PInt 1]))\<rparr>"

text \<open>The API answers with an empty \<^verbatim>\<open>building_data\<close>.\<close>

definition demo_runtime_no_data :: "pyval runtime" where
  "demo_runtime_no_data =
     demo_runtime\<lparr>requests_post_json :=
       (\<lambda>url body headers. Inr (PDict [(''building_data'', PList [])]))\<rparr>"

text \<open>The columns have different lengths and the dataframe cannot be built.\<close>

definition demo_runtime_ragged :: "pyval runtime" where
  "demo_runtime_ragged =
     demo_runtime\<lparr>pd_DataFrame :=
       (\<lambda>v. Inl (Exn ''ValueError'' ''All arrays must be of the same length''))\<rparr>"

text \<open>The platform refuses the file.\<close>

definition demo_context_store_fails :: automation_context where
  "demo_context_store_fails =
     demo_context\<lparr>store_file_result :=
       (\<lambda>path. Some (Exn ''ValueError'' ''The given file path does not exist''))\<rparr>"

text \<open>The success report itself raises.\<close>

definition demo_context_success_fails :: automation_context where
  "demo_context_success_fails =
     demo_context\<lparr>mark_run_success :=
       (\<lambda>msg. Some (Exn ''RuntimeError'' ''status update rejected''))\<rparr>"

text \<open>The lone surrogate \<open>U+D83D\<close>, and two replies that hold it: a string, and an object.\<close>

definition lone_surrogate :: string where
  "lone_surrogate = [CHR 0xED, CHR 0xA0, CHR 0xBD]"


definition demo_runtime_surrogate_note :: "pyval runtime" where
  "demo_runtime_surrogate_note =
     demo_runtime\<lparr>requests_post_json :=
       (\<lambda>url body headers. Inr (PDict [(''note'', PStr lone_surrogate)]))\<rparr>"

section \<open>Printing\<close>

lemma py_print_trace:
  "\<exists>r. py_print err args w = (r, w\<lparr>trace := trace w @ map Print [args]\<rparr>)"
  by (simp add: py_print_def emit_def)

lemma py_print_returns:
  assumes "find unprintable args = None"
  shows "py_print err args w = (Inr (), w\<lparr>trace := trace w @ [Print args]\<rparr>)"
  using assms by (simp add: py_print_def emit_def)

text \<open>A loop of prints only prints, whether or not it gets to its end.\<close>

lemma for_each_print_trace:
  "\<exists>r ps. for_each xs (\<lambda>x. py_print err (f x)) w = (r, w\<lparr>trace := trace w @ map Print ps\<rparr>)"
proof (induction xs arbitrary: w)
  case Nil
  have "for_each [] (\<lambda>x. py_print err (f x)) w = (Inr (), w\<lparr>trace := trace w @ map Print []\<rparr>)"
    by (simp add: ok_def)
  then show ?case by blast
next
  case (Cons x xs)
  obtain r where r: "py_print err (f x) w = (r, w\<lparr>trace := trace w @ [Print (f x)]\<rparr>)"
    using py_print_trace [of err "f x" w] by auto
  show ?case
  proof (cases r)
    case (Inl e)
    then have "for_each (x # xs) (\<lambda>x. py_print err (f x)) w =
        (Inl e, w\<lparr>trace := trace w @ map Print [f x]\<rparr>)"
      using r by (simp add: and_then_def)
    then show ?thesis by blast
  next
    case (Inr u)
    obtain r' ps where "for_each xs (\<lambda>x. py_print err (f x)) (w\<lparr>trace := trace w @ [Print (f x)]\<rparr>)
        = (r', w\<lparr>trace := trace w @ [Print (f x)]\<rparr>
                \<lparr>trace := trace (w\<lparr>trace := trace w @ [Print (f x)]\<rparr>) @ map Print ps\<rparr>)"
      using Cons.IH by blast
    then have "for_each (x # xs) (\<lambda>x. py_print err (f x)) w =
        (r', w\<lparr>trace := trace w @ map Print (f x # ps)\<rparr>)"
      using r Inr by (simp add: and_then_def)
    then show ?thesis by blast
  qed
qed

lemma for_each_print_returns:
  assumes "\<forall>x \<in> set xs. find unprintable (f x) = None"
  shows "for_each xs (\<lambda>x. py_print err (f x)) w =
           (Inr (), w\<lparr>trace := trace w @ map (\<lambda>x. Print (f x)) xs\<rparr>)"
  using assms
proof (induction xs arbitrary: w)
  case Nil
  show ?case by (simp add: ok_def)
next
  case (Cons x xs)
  have "py_print err (f x) w = (Inr (), w\<lparr>trace := trace w @ [Print (f x)]\<rparr>)"
    using Cons.prems by (simp add: py_print_returns)
  then show ?case using Cons by (simp add: and_then_def)
qed

lemma header_line: "(\<lambda>(key, val). py_print err [Str (key @ '': '' @ val)]) =
        (\<lambda>x. py_print err ((\<lambda>(key, val). [Str (key @ '': '' @ val)]) x))"
  by (simp add: fun_eq_iff split: prod.splits)

lemma item_line: "(\<lambda>(key, val). py_print err [KeyVal key val]) =
        (\<lambda>x. py_print err ((\<lambda>(key, val). [KeyVal key val]) x))"
  by (simp add: fun_eq_iff split: prod.splits)

text \<open>The headers are validated text: their prints return.\<close>

lemma print_headers_run:
  "\<exists>ps. print_headers err hs w = (Inr (), w\<lparr>trace := trace w @ map Print ps\<rparr>)"
proof -
  have "\<forall>x \<in> set hs. find unprintable ((\<lambda>(key, val). [Str (key @ '': '' @ val)]) x) = None"
    by (simp split: prod.splits)
  then have "for_each hs (\<lambda>x. py_print err ((\<lambda>(key, val). [Str (key @ '': '' @ val)]) x)) w' =
      (Inr (), w'\<lparr>trace := trace w' @ map (\<lambda>x. Print ((\<lambda>(key, val). [Str (key @ '': '' @ val)]) x)) hs\<rparr>)"
    for w'
    by (rule for_each_print_returns)
  then have "for_each hs (\<lambda>(key, val). py_print err [Str (key @ '': '' @ val)]) w' =
      (Inr (), w'\<lparr>trace := trace w' @ map Print (map (\<lambda>(key, val). [Str (key @ '': '' @ val)]) hs)\<rparr>)"
    for w'
    by (subst header_line) (simp add: o_def)
  then have "print_headers err hs w = (Inr (), w\<lparr>trace := trace w @ map Print
       ([Str ''Headers:'', Obj (PDict (map (\<lambda>(k, v). (k, PStr v)) hs))]
         # [Str ''Headers type:'', TypeOf ''dict'']
         # map (\<lambda>(key, val). [Str (key @ '': '' @ val)]) hs)\<rparr>)"
    by (simp add: print_headers_def and_then_def py_print_returns)
  then show ?thesis by blast
qed

lemma print_url_run:
  "py_print err [Str ''URL:'', Str url] w = (Inr (), w\<lparr>trace := trace w @ map Print [[Str ''URL:'', Str url]]\<rparr>)"
  by (simp add: py_print_returns)

text \<open>The reply's prints only print.\<close>

lemma print_response_trace:
  "\<exists>r ps. print_response err response w = (r, w\<lparr>trace := trace w @ map Print ps\<rparr>)"
proof -
  obtain r1 where r1: "py_print err [Str ''Response:'', Obj response] w =
      (r1, w\<lparr>trace := trace w @ [Print [Str ''Response:'', Obj response]]\<rparr>)"
    using py_print_trace [of err "[Str ''Response:'', Obj response]" w] by auto
  let ?w1 = "w\<lparr>trace := trace w @ [Print [Str ''Response:'', Obj response]]\<rparr>"
  let ?w2 = "w\<lparr>trace := trace w @ [Print [Str ''Response:'', Obj response],
                                     Print [Str ''Response type:'', TypeOf (type_name response)]]\<rparr>"
  have p2: "py_print err [Str ''Response type:'', TypeOf (type_name response)] ?w1 = (Inr (), ?w2)"
    by (simp add: py_print_returns)
  show ?thesis
  proof (cases r1)
    case (Inl e)
    then have "print_response err response w =
        (Inl e, w\<lparr>trace := trace w @ map Print [[Str ''Response:'', Obj response]]\<rparr>)"
      using r1 by (simp add: print_response_def and_then_def)
    then show ?thesis by blast
  next
    case (Inr u)
    show ?thesis
    proof (cases "py_items response")
      case (Inl e)
      then have "print_response err response w =
          (Inl e, w\<lparr>trace := trace w @ map Print [[Str ''Response:'', Obj response],
                  [Str ''Response type:'', TypeOf (type_name response)]]\<rparr>)"
        using r1 \<open>r1 = Inr u\<close> p2 by (simp add: print_response_def and_then_def lift_def)
      then show ?thesis by blast
    next
      case its: (Inr its)
      obtain r3 ps where "for_each its (\<lambda>x. py_print err ((\<lambda>(key, val). [KeyVal key val]) x)) ?w2 =
          (r3, ?w2\<lparr>trace := trace ?w2 @ map Print ps\<rparr>)"
        using for_each_print_trace by blast
      then have "for_each its (\<lambda>(key, val). py_print err [KeyVal key val]) ?w2 =
          (r3, ?w2\<lparr>trace := trace ?w2 @ map Print ps\<rparr>)"
        by (subst item_line)
      then have "print_response err response w =
          (r3, w\<lparr>trace := trace w @ map Print ([Str ''Response:'', Obj response]
                  # [Str ''Response type:'', TypeOf (type_name response)] # ps)\<rparr>)"
        using r1 \<open>r1 = Inr u\<close> p2 its
        by (simp add: print_response_def and_then_def lift_def)
      then show ?thesis by blast
    qed
  qed
qed

lemma print_response_dict:
  assumes "items_printable kvs"
  shows "\<exists>ps. print_response err (PDict kvs) w = (Inr (), w\<lparr>trace := trace w @ map Print ps\<rparr>)"
proof -
  have "\<forall>x \<in> set kvs. find unprintable ((\<lambda>(key, val). [KeyVal key val]) x) = None"
    using assms by (auto simp: items_printable_def list_all_iff)
  then have "for_each kvs (\<lambda>x. py_print err ((\<lambda>(key, val). [KeyVal key val]) x)) w' =
      (Inr (), w'\<lparr>trace := trace w' @ map (\<lambda>x. Print ((\<lambda>(key, val). [KeyVal key val]) x)) kvs\<rparr>)"
    for w'
    by (rule for_each_print_returns)
  then have "for_each kvs (\<lambda>(key, val). py_print err [KeyVal key val]) w' =
      (Inr (), w'\<lparr>trace := trace w' @ map Print (map (\<lambda>(key, val). [KeyVal key val]) kvs)\<rparr>)"
    for w'
    by (subst item_line) (simp add: o_def)
  then have "print_response err (PDict kvs) w = (Inr (), w\<lparr>trace := trace w @ map Print
       ([Str ''Response:'', Obj (PDict kvs)] # [Str ''Response type:'', TypeOf ''dict'']
         # map (\<lambda>(key, val). [KeyVal key val]) kvs)\<rparr>)"
    by (simp add: print_response_def and_then_def py_print_returns lift_def py_items_def)
  then show ?thesis by blast
qed

lemma print_response_dict_raises:
  assumes "\<not> items_printable kvs"
  shows "\<exists>e ps. print_response err (PDict kvs) w = (Inl e, w\<lparr>trace := trace w @ map Print ps\<rparr>)"
proof -
  have step: "\<exists>e ps. for_each xs (\<lambda>x. py_print err ((\<lambda>(key, val). [KeyVal key val]) x)) w' =
      (Inl e, w'\<lparr>trace := trace w' @ map Print ps\<rparr>)"
    if "\<not> items_printable xs" for xs w'
    using that
  proof (induction xs arbitrary: w')
    case Nil
    then show ?case by (simp add: items_printable_def)
  next
    case (Cons x xs)
    obtain key val where x: "x = (key, val)" by (cases x)
    show ?case
    proof (cases "unprintable (KeyVal key val)")
      case True
      then have "for_each (x # xs) (\<lambda>x. py_print err ((\<lambda>(key, val). [KeyVal key val]) x)) w' =
          (Inl (err (KeyVal key val)), w'\<lparr>trace := trace w' @ map Print [[KeyVal key val]]\<rparr>)"
        by (simp add: x and_then_def py_print_def emit_def)
      then show ?thesis by blast
    next
      case False
      then have rest: "\<not> items_printable xs"
        using Cons.prems by (simp add: items_printable_def x)
      have p: "py_print err [KeyVal key val] w' =
          (Inr (), w'\<lparr>trace := trace w' @ [Print [KeyVal key val]]\<rparr>)"
        using False by (simp add: py_print_returns)
      obtain e ps where "for_each xs (\<lambda>x. py_print err ((\<lambda>(key, val). [KeyVal key val]) x))
            (w'\<lparr>trace := trace w' @ [Print [KeyVal key val]]\<rparr>) =
          (Inl e, w'\<lparr>trace := trace w' @ [Print [KeyVal key val]]\<rparr>
                   \<lparr>trace := trace (w'\<lparr>trace := trace w' @ [Print [KeyVal key val]]\<rparr>) @ map Print ps\<rparr>)"
        using Cons.IH [OF rest] by blast
      then have "for_each (x # xs) (\<lambda>x. py_print err ((\<lambda>(key, val). [KeyVal key val]) x)) w' =
          (Inl e, w'\<lparr>trace := trace w' @ map Print ([KeyVal key val] # ps)\<rparr>)"
        using p by (simp add: x and_then_def)
      then show ?thesis by blast
    qed
  qed
  let ?w2 = "w\<lparr>trace := trace w @ [Print [Str ''Response:'', Obj (PDict kvs)],
                                     Print [Str ''Response type:'', TypeOf ''dict'']]\<rparr>"
  obtain e ps where "for_each kvs (\<lambda>x. py_print err ((\<lambda>(key, val). [KeyVal key val]) x)) ?w2 =
      (Inl e, ?w2\<lparr>trace := trace ?w2 @ map Print ps\<rparr>)"
    using step [OF assms] by blast
  then have "for_each kvs (\<lambda>(key, val). py_print err [KeyVal key val]) ?w2 =
      (Inl e, ?w2\<lparr>trace := trace ?w2 @ map Print ps\<rparr>)"
    by (subst item_line)
  then have "print_response err (PDict kvs) w = (Inl e, w\<lparr>trace := trace w @ map Print
       ([Str ''Response:'', Obj (PDict kvs)] # [Str ''Response type:'', TypeOf ''dict''] # ps)\<rparr>)"
    by (simp add: print_response_def and_then_def py_print_returns lift_def py_items_def)
  then show ?thesis by blast
qed

text \<open>
  A reply that is not a dict: the print of line 88 raises for a string with a lone
  surrogate, and \<^verbatim>\<open>items()\<close> raises for everything else.
\<close>

lemma print_response_other:
  assumes "\<And>kvs. response \<noteq> PDict kvs"
  shows "\<exists>ps. print_response err response w =
           (Inl (if raw_surrogate response then err (Obj response)
                 else attribute_error response ''items''),
            w\<lparr>trace := trace w @ map Print ps\<rparr>)"
proof (cases "raw_surrogate response")
  case True
  then have "print_response err response w =
      (Inl (err (Obj response)), w\<lparr>trace := trace w @ map Print [[Str ''Response:'', Obj response]]\<rparr>)"
    by (simp add: print_response_def and_then_def py_print_def emit_def)
  then have "\<exists>ps. print_response err response w =
      (Inl (err (Obj response)), w\<lparr>trace := trace w @ map Print ps\<rparr>)"
    by blast
  then show ?thesis using True by simp
next
  case False
  have "py_items response = Inl (attribute_error response ''items'')"
    using assms by (cases response) (auto simp: py_items_def)
  then have "print_response err response w =
      (Inl (attribute_error response ''items''), w\<lparr>trace := trace w @ map Print
         [[Str ''Response:'', Obj response],
          [Str ''Response type:'', TypeOf (type_name response)]]\<rparr>)"
    using False by (simp add: print_response_def and_then_def py_print_returns lift_def)
  then have "\<exists>ps. print_response err response w =
      (Inl (attribute_error response ''items''), w\<lparr>trace := trace w @ map Print ps\<rparr>)"
    by blast
  then show ?thesis using False by simp
qed

section \<open>Reading a trace\<close>

lemma requests_of_append: "requests_of (xs @ ys) = requests_of xs @ requests_of ys"
  by (induction xs rule: requests_of.induct) simp_all

lemma requests_of_prints: "requests_of (map Print ps) = []"
  by (induction ps) simp_all

lemma filter_prints:
  "filter (\<lambda>ev. \<not> is_print ev) (map Print ps) = []"
  "filter (\<lambda>ev. is_success ev \<or> is_failed ev) (map Print ps) = []"
  "filter is_success (map Print ps) = []"
  "filter is_failed (map Print ps) = []"
  "filter is_file_write (map Print ps) = []"
  "filter is_store (map Print ps) = []"
  by (induction ps) simp_all

section \<open>The run up to the reply\<close>

lemma run_empty_triggers:
  assumes "triggers (automation_run_data ctx) = []"
  shows "run rt ctx inp fs =
           (Inl (Exn ''IndexError'' ''list index out of range''), initial_world fs)"
  using assms by (simp add: run_def automate_function_def and_then_def lift_def getitem0_def)

lemma run_reaches_post:
  assumes "triggers (automation_run_data ctx) = tr # rest"
  shows "\<exists>ps. run rt ctx inp fs =
           (case post_reply rt ctx tr inp of
              Inl e \<Rightarrow> (Inl e, \<lparr>trace = map Print ps @ [sent_request ctx tr inp], files = fs\<rparr>)
            | Inr response \<Rightarrow>
                and_then (print_response (stdout_encode_error rt) response)
                  (\<lambda>_. handle_response rt ctx response)
                  \<lparr>trace = map Print ps @ [sent_request ctx tr inp], files = fs\<rparr>)"
proof -
  obtain ps where ps: "print_headers (stdout_encode_error rt) (request_headers inp) (initial_world fs)
      = (Inr (), (initial_world fs)\<lparr>trace := trace (initial_world fs) @ map Print ps\<rparr>)"
    using print_headers_run by blast
  have "run rt ctx inp fs =
           (case post_reply rt ctx tr inp of
              Inl e \<Rightarrow> (Inl e, \<lparr>trace = map Print (ps @ [[Str ''URL:'', Str (request_url inp)]])
                                   @ [sent_request ctx tr inp], files = fs\<rparr>)
            | Inr response \<Rightarrow>
                and_then (print_response (stdout_encode_error rt) response)
                  (\<lambda>_. handle_response rt ctx response)
                  \<lparr>trace = map Print (ps @ [[Str ''URL:'', Str (request_url inp)]])
                             @ [sent_request ctx tr inp], files = fs\<rparr>)"
    using assms ps
    by (simp add: run_def automate_function_def and_then_def lift_def getitem0_def Let_def
        print_url_run emit_def json_loads_dumps_def initial_world_def post_reply_def
        sent_request_def split: sum.splits)
  then show ?thesis by blast
qed

lemma run_post_raises:
  assumes "triggers (automation_run_data ctx) = tr # rest"
    and "post_reply rt ctx tr inp = Inl e"
  shows "\<exists>ps. run rt ctx inp fs =
           (Inl e, \<lparr>trace = map Print ps @ [sent_request ctx tr inp], files = fs\<rparr>)"
  using run_reaches_post [OF assms(1), of rt inp fs] assms(2) by simp

text \<open>Once the reply is there, the run prints it and either stops there or handles it.\<close>

lemma run_after_reply:
  assumes "triggers (automation_run_data ctx) = tr # rest"
    and "post_reply rt ctx tr inp = Inr response"
  shows "\<exists>r ps qs. run rt ctx inp fs =
           (case r of
              Inl e \<Rightarrow> (Inl e, \<lparr>trace = map Print ps @ [sent_request ctx tr inp] @ map Print qs,
                                 files = fs\<rparr>)
            | Inr u \<Rightarrow> handle_response rt ctx response
                         \<lparr>trace = map Print ps @ [sent_request ctx tr inp] @ map Print qs,
                          files = fs\<rparr>)
         \<and> fst (print_response (stdout_encode_error rt) response
                  \<lparr>trace = map Print ps @ [sent_request ctx tr inp], files = fs\<rparr>) = r"
proof -
  obtain ps where ps: "run rt ctx inp fs =
      and_then (print_response (stdout_encode_error rt) response)
        (\<lambda>_. handle_response rt ctx response)
        \<lparr>trace = map Print ps @ [sent_request ctx tr inp], files = fs\<rparr>"
    using run_reaches_post [OF assms(1), of rt inp fs] assms(2) by auto
  let ?w = "\<lparr>trace = map Print ps @ [sent_request ctx tr inp], files = fs\<rparr>"
  obtain r qs where q: "print_response (stdout_encode_error rt) response ?w =
      (r, ?w\<lparr>trace := trace ?w @ map Print qs\<rparr>)"
    using print_response_trace by blast
  have "run rt ctx inp fs =
           (case r of
              Inl e \<Rightarrow> (Inl e, \<lparr>trace = map Print ps @ [sent_request ctx tr inp] @ map Print qs,
                                 files = fs\<rparr>)
            | Inr u \<Rightarrow> handle_response rt ctx response
                         \<lparr>trace = map Print ps @ [sent_request ctx tr inp] @ map Print qs,
                          files = fs\<rparr>)"
    by (simp add: ps and_then_def q split: sum.splits)
  moreover have "fst (print_response (stdout_encode_error rt) response ?w) = r"
    by (simp add: q)
  ultimately show ?thesis by blast
qed

lemma run_reply_not_object:
  assumes "triggers (automation_run_data ctx) = tr # rest"
    and "post_reply rt ctx tr inp = Inr response"
    and "\<And>kvs. response \<noteq> PDict kvs"
  shows "\<exists>ps qs. run rt ctx inp fs =
           (Inl (if raw_surrogate response then stdout_encode_error rt (Obj response)
                 else attribute_error response ''items''),
            \<lparr>trace = map Print ps @ [sent_request ctx tr inp] @ map Print qs, files = fs\<rparr>)"
proof -
  obtain r ps qs where run: "run rt ctx inp fs =
           (case r of
              Inl e \<Rightarrow> (Inl e, \<lparr>trace = map Print ps @ [sent_request ctx tr inp] @ map Print qs,
                                 files = fs\<rparr>)
            | Inr u \<Rightarrow> handle_response rt ctx response
                         \<lparr>trace = map Print ps @ [sent_request ctx tr inp] @ map Print qs,
                          files = fs\<rparr>)"
    and r: "fst (print_response (stdout_encode_error rt) response
                  \<lparr>trace = map Print ps @ [sent_request ctx tr inp], files = fs\<rparr>) = r"
    using run_after_reply [OF assms(1,2), of fs] by blast
  have "r = Inl (if raw_surrogate response then stdout_encode_error rt (Obj response)
                 else attribute_error response ''items'')"
    using print_response_other [OF assms(3), of "stdout_encode_error rt"
        "\<lparr>trace = map Print ps @ [sent_request ctx tr inp], files = fs\<rparr>"] r
    by auto
  then show ?thesis using run by auto
qed

lemma run_reply_object:
  assumes "triggers (automation_run_data ctx) = tr # rest"
    and "post_reply rt ctx tr inp = Inr (PDict kvs)"
    and "items_printable kvs"
  shows "\<exists>ps qs. run rt ctx inp fs =
           handle_response rt ctx (PDict kvs)
             \<lparr>trace = map Print ps @ [sent_request ctx tr inp] @ map Print qs, files = fs\<rparr>"
proof -
  obtain r ps qs where run: "run rt ctx inp fs =
           (case r of
              Inl e \<Rightarrow> (Inl e, \<lparr>trace = map Print ps @ [sent_request ctx tr inp] @ map Print qs,
                                 files = fs\<rparr>)
            | Inr u \<Rightarrow> handle_response rt ctx (PDict kvs)
                         \<lparr>trace = map Print ps @ [sent_request ctx tr inp] @ map Print qs,
                          files = fs\<rparr>)"
    and r: "fst (print_response (stdout_encode_error rt) (PDict kvs)
                  \<lparr>trace = map Print ps @ [sent_request ctx tr inp], files = fs\<rparr>) = r"
    using run_after_reply [OF assms(1,2), of fs] by blast
  have "r = Inr ()"
    using print_response_dict [OF assms(3), of "stdout_encode_error rt"
        "\<lparr>trace = map Print ps @ [sent_request ctx tr inp], files = fs\<rparr>"] r
    by auto
  then show ?thesis using run by auto
qed

text \<open>An object reply with an item that cannot be printed ends the run at line 91.\<close>

lemma run_reply_object_unprintable:
  assumes "triggers (automation_run_data ctx) = tr # rest"
    and "post_reply rt ctx tr inp = Inr (PDict kvs)"
    and "\<not> items_printable kvs"
  shows "\<exists>e ps qs. run rt ctx inp fs =
           (Inl e, \<lparr>trace = map Print ps @ [sent_request ctx tr inp] @ map Print qs, files = fs\<rparr>)"
proof -
  obtain r ps qs where run: "run rt ctx inp fs =
           (case r of
              Inl e \<Rightarrow> (Inl e, \<lparr>trace = map Print ps @ [sent_request ctx tr inp] @ map Print qs,
                                 files = fs\<rparr>)
            | Inr u \<Rightarrow> handle_response rt ctx (PDict kvs)
                         \<lparr>trace = map Print ps @ [sent_request ctx tr inp] @ map Print qs,
                          files = fs\<rparr>)"
    and r: "fst (print_response (stdout_encode_error rt) (PDict kvs)
                  \<lparr>trace = map Print ps @ [sent_request ctx tr inp], files = fs\<rparr>) = r"
    using run_after_reply [OF assms(1,2), of fs] by blast
  obtain e where "r = Inl e"
    using print_response_dict_raises [OF assms(3), of "stdout_encode_error rt"
        "\<lparr>trace = map Print ps @ [sent_request ctx tr inp], files = fs\<rparr>"] r
    by auto
  then show ?thesis using run by auto
qed

section \<open>Handling the reply\<close>

lemma handle_no_data:
  assumes "map_of kvs ''building_data'' = None
           \<or> (\<exists>v. map_of kvs ''building_data'' = Some v \<and> \<not> truthy v)"
  shows "handle_response rt ctx (PDict kvs) w =
           (report (mark_run_failed ctx ''Automation failed: No building data could be retrieved!''),
            emit (MarkRunFailed ''Automation failed: No building data could be retrieved!'') w)"
  using assms
  by (auto simp: handle_response_def and_then_def lift_def py_get_def call_def report_def)

lemma handle_truthy:
  assumes "map_of kvs ''building_data'' = Some bd" and "truthy bd"
  shows "handle_response rt ctx (PDict kvs) w =
     try_except (render_and_store rt ctx (PDict kvs)) (\<lambda>e.
         call (MarkRunFailed (''Automation failed: '' @ exn_text e))
           (mark_run_failed ctx (''Automation failed: '' @ exn_text e))) w"
  using assms by (simp add: handle_response_def and_then_def lift_def py_get_def)

lemma render_raises:
  assumes "map_of kvs ''building_data'' = Some bd"
    and "rendering_raises rt ctx bd e"
  shows "\<exists>w1. render_and_store rt ctx (PDict kvs) w = (Inl e, w1)
           \<and> filter is_failed (trace w1) = filter is_failed (trace w)
           \<and> filter is_success (trace w1) = filter is_success (trace w)"
  using assms
  by (auto simp: render_and_store_def and_then_def lift_def py_subscript_def
      rendering_raises_def write_file_def call_def emit_def Let_def
      split: sum.splits file_outcome.splits option.splits)

lemma handle_rendering_raises:
  assumes "map_of kvs ''building_data'' = Some bd" and "truthy bd"
    and "rendering_raises rt ctx bd e"
  shows "fst (handle_response rt ctx (PDict kvs) w) =
           report (mark_run_failed ctx (''Automation failed: '' @ exn_text e))"
    and "filter is_failed (trace (snd (handle_response rt ctx (PDict kvs) w))) =
           filter is_failed (trace w) @ [MarkRunFailed (''Automation failed: '' @ exn_text e)]"
    and "filter is_success (trace (snd (handle_response rt ctx (PDict kvs) w))) =
           filter is_success (trace w)"
proof -
  obtain w1 where w1: "render_and_store rt ctx (PDict kvs) w = (Inl e, w1)"
    "filter is_failed (trace w1) = filter is_failed (trace w)"
    "filter is_success (trace w1) = filter is_success (trace w)"
    using render_raises [OF assms(1,3)] by blast
  have h: "handle_response rt ctx (PDict kvs) w =
      (report (mark_run_failed ctx (''Automation failed: '' @ exn_text e)),
       emit (MarkRunFailed (''Automation failed: '' @ exn_text e)) w1)"
    by (simp add: handle_truthy [OF assms(1,2)] try_except_def w1(1) call_def report_def)
  show "fst (handle_response rt ctx (PDict kvs) w) =
           report (mark_run_failed ctx (''Automation failed: '' @ exn_text e))"
    by (simp add: h)
  show "filter is_failed (trace (snd (handle_response rt ctx (PDict kvs) w))) =
           filter is_failed (trace w) @ [MarkRunFailed (''Automation failed: '' @ exn_text e)]"
    by (simp add: h emit_def w1(2))
  show "filter is_success (trace (snd (handle_response rt ctx (PDict kvs) w))) =
           filter is_success (trace w)"
    by (simp add: h emit_def w1(3))
qed

text \<open>The rendering branch up to the file registration, when the file has been written.\<close>

lemma render_after_write:
  assumes "map_of kvs ''building_data'' = Some bd"
    and "pd_DataFrame rt bd = Inr df" and "df_to_html rt df = Inr html"
    and "open_write rt ''building_data.html'' html = Written"
  shows "render_and_store rt ctx (PDict kvs) w =
     (case store_file_result ctx ''building_data_html'' of
        Some e \<Rightarrow>
          (Inl e, \<lparr>trace = trace w @ [FileWrite ''building_data.html'' html,
                                       StoreFileResult ''building_data_html''],
                   files = (files w)(''building_data.html'' \<mapsto> html)\<rparr>)
      | None \<Rightarrow>
          (report (mark_run_success ctx ''Building data table successfully generated!''),
           \<lparr>trace = trace w @ [FileWrite ''building_data.html'' html,
                               StoreFileResult ''building_data_html'',
                               MarkRunSuccess ''Building data table successfully generated!''],
            files = (files w)(''building_data.html'' \<mapsto> html)\<rparr>))"
  using assms
  by (cases w) (simp add: render_and_store_def and_then_def lift_def py_subscript_def
      write_file_def call_def emit_def Let_def report_def split: option.splits)

text \<open>Handling the reply sends no request.\<close>

lemma render_keeps_requests:
  "requests_of (trace (snd (render_and_store rt ctx response w))) = requests_of (trace w)"
  by (simp add: render_and_store_def and_then_def lift_def write_file_def call_def emit_def
      Let_def requests_of_append split: sum.splits file_outcome.splits option.splits)

lemma handle_keeps_requests:
  "requests_of (trace (snd (handle_response rt ctx response w))) = requests_of (trace w)"
proof -
  have "requests_of (trace (snd (try_except (render_and_store rt ctx response) (\<lambda>e.
         call (MarkRunFailed (''Automation failed: '' @ exn_text e))
           (mark_run_failed ctx (''Automation failed: '' @ exn_text e))) w))) =
        requests_of (trace w)"
    using render_keeps_requests [of rt ctx response w]
    by (cases "render_and_store rt ctx response w")
       (auto simp: try_except_def call_def emit_def requests_of_append split: sum.splits)
  then show ?thesis
    by (simp add: handle_response_def and_then_def lift_def call_def emit_def
        requests_of_append split: sum.splits)
qed

section \<open>Counting requests and outcomes\<close>

lemma raised_report: "raised (report x, w) = x"
  by (simp add: raised_def report_def split: option.splits)

lemma run_requests:
  assumes "triggers (automation_run_data ctx) = tr # rest"
  shows "requests_of (trace (snd (run rt ctx inp fs))) =
           [(request_url inp, request_data (automation_run_data ctx) (payload tr) inp,
             request_headers inp)]"
proof (cases "post_reply rt ctx tr inp")
  case (Inl e)
  then obtain ps where "run rt ctx inp fs =
      (Inl e, \<lparr>trace = map Print ps @ [sent_request ctx tr inp], files = fs\<rparr>)"
    using run_post_raises [OF assms] by blast
  then show ?thesis
    by (simp add: requests_of_append requests_of_prints sent_request_def)
next
  case (Inr response)
  obtain r ps qs where "run rt ctx inp fs =
           (case r of
              Inl e \<Rightarrow> (Inl e, \<lparr>trace = map Print ps @ [sent_request ctx tr inp] @ map Print qs,
                                 files = fs\<rparr>)
            | Inr u \<Rightarrow> handle_response rt ctx response
                         \<lparr>trace = map Print ps @ [sent_request ctx tr inp] @ map Print qs,
                          files = fs\<rparr>)"
    and "fst (print_response (stdout_encode_error rt) response
                  \<lparr>trace = map Print ps @ [sent_request ctx tr inp], files = fs\<rparr>) = r"
    using run_after_reply [OF assms Inr, of fs] by blast
  then show ?thesis
    by (cases r)
       (simp_all add: handle_keeps_requests requests_of_append requests_of_prints
          sent_request_def)
qed

lemma handle_one_outcome_returns:
  assumes "mark_run_success ctx ''Building data table successfully generated!'' = None"
  shows "length (filter (\<lambda>ev. is_success ev \<or> is_failed ev)
                  (trace (snd (handle_response rt ctx (PDict kvs) w)))) =
         Suc (length (filter (\<lambda>ev. is_success ev \<or> is_failed ev) (trace w)))"
  using assms
  by (simp add: handle_response_def render_and_store_def try_except_def and_then_def lift_def
      py_get_def py_subscript_def write_file_def call_def emit_def Let_def
      split: sum.splits file_outcome.splits option.splits)

lemma handle_one_outcome_not_made:
  "MarkRunSuccess ''Building data table successfully generated!''
     \<in> set (trace (snd (handle_response rt ctx (PDict kvs) w)))
   \<or> length (filter (\<lambda>ev. is_success ev \<or> is_failed ev)
                  (trace (snd (handle_response rt ctx (PDict kvs) w)))) =
      Suc (length (filter (\<lambda>ev. is_success ev \<or> is_failed ev) (trace w)))"
  by (simp add: handle_response_def render_and_store_def try_except_def and_then_def lift_def
      py_get_def py_subscript_def write_file_def call_def emit_def Let_def
      split: sum.splits file_outcome.splits option.splits)

text \<open>
  One outcome is reported for an object reply, unless the success report was made and
  raised (which makes the handler report a failure as well).
\<close>

lemma handle_one_outcome:
  assumes "MarkRunSuccess ''Building data table successfully generated!''
             \<in> set (trace (snd (handle_response rt ctx (PDict kvs) w)))
           \<longrightarrow> mark_run_success ctx ''Building data table successfully generated!'' = None"
  shows "length (filter (\<lambda>ev. is_success ev \<or> is_failed ev)
                  (trace (snd (handle_response rt ctx (PDict kvs) w)))) =
         Suc (length (filter (\<lambda>ev. is_success ev \<or> is_failed ev) (trace w)))"
  using assms handle_one_outcome_returns [of ctx rt kvs w]
    handle_one_outcome_not_made [of rt ctx kvs w]
  by blast

section \<open>Runs that report nothing, and the reply without data\<close>

text \<open>
  Claim C10. When the trigger list of the run data is empty, \<^verbatim>\<open>triggers[0]\<close> raises
  \<^verbatim>\<open>IndexError\<close> and the handler lets it through: nothing at all has happened by then, so
  no HTTP request is issued, no file is written and no outcome is reported.
\<close>

theorem empty_triggers_index_error:
  assumes "triggers (automation_run_data ctx) = []"
  shows "raised (run rt ctx inp fs) = Some (Exn ''IndexError'' ''list index out of range'')
       \<and> trace (snd (run rt ctx inp fs)) = []
       \<and> files (snd (run rt ctx inp fs)) = fs"
  by (simp add: run_empty_triggers [OF assms] raised_def initial_world_def)

theorem empty_triggers_index_error_witness:
  "triggers (automation_run_data demo_context_no_trigger) = []
   \<and> raised (run demo_runtime demo_context_no_trigger demo_inputs no_files) =
       Some (Exn ''IndexError'' ''list index out of range'')
   \<and> trace (snd (run demo_runtime demo_context_no_trigger demo_inputs no_files)) = []
   \<and> files (snd (run demo_runtime demo_context_no_trigger demo_inputs no_files)) = no_files"
proof -
  have h: "triggers (automation_run_data demo_context_no_trigger) = []"
    by (simp add: demo_context_no_trigger_def demo_context_def)
  show ?thesis
    using h empty_triggers_index_error [OF h, of demo_runtime demo_inputs no_files] by simp
qed

text \<open>
  Claim C3. When the call \<^verbatim>\<open>requests.post(...).json()\<close> raises (the network fails, or the
  reply is not JSON), the handler raises that same exception: the request is the only thing
  it did, and neither \<^verbatim>\<open>mark_run_success\<close> nor \<^verbatim>\<open>mark_run_failed\<close> is called.
\<close>

theorem transport_error_propagates:
  assumes "triggers (automation_run_data ctx) = tr # rest"
    and "post_reply rt ctx tr inp = Inl e"
  shows "raised (run rt ctx inp fs) = Some e
       \<and> actions (run rt ctx inp fs) = [sent_request ctx tr inp]
       \<and> filter is_success (trace (snd (run rt ctx inp fs))) = []
       \<and> filter is_failed (trace (snd (run rt ctx inp fs))) = []
       \<and> files (snd (run rt ctx inp fs)) = fs"
proof -
  obtain ps where "run rt ctx inp fs =
      (Inl e, \<lparr>trace = map Print ps @ [sent_request ctx tr inp], files = fs\<rparr>)"
    using run_post_raises [OF assms] by blast
  then show ?thesis
    by (simp add: raised_def actions_def filter_prints sent_request_def)
qed

theorem transport_error_propagates_witness:
  "triggers (automation_run_data demo_context) =
     [\<lparr>payload = \<lparr>model_id = ''m1'', version_id = ''v1''\<rparr>\<rparr>]
   \<and> post_reply demo_runtime_offline demo_context
        \<lparr>payload = \<lparr>model_id = ''m1'', version_id = ''v1''\<rparr>\<rparr> demo_inputs =
       Inl (Exn ''ConnectionError'' ''connection refused'')
   \<and> raised (run demo_runtime_offline demo_context demo_inputs no_files) =
       Some (Exn ''ConnectionError'' ''connection refused'')
   \<and> filter is_success (trace (snd (run demo_runtime_offline demo_context demo_inputs no_files))) = []
   \<and> filter is_failed (trace (snd (run demo_runtime_offline demo_context demo_inputs no_files))) = []"
proof -
  have h1: "triggers (automation_run_data demo_context) =
     [\<lparr>payload = \<lparr>model_id = ''m1'', version_id = ''v1''\<rparr>\<rparr>]"
    by (simp add: demo_context_def demo_run_data_def)
  have h2: "post_reply demo_runtime_offline demo_context
        \<lparr>payload = \<lparr>model_id = ''m1'', version_id = ''v1''\<rparr>\<rparr> demo_inputs =
       Inl (Exn ''ConnectionError'' ''connection refused'')"
    by (simp add: post_reply_def demo_runtime_offline_def demo_runtime_def)
  show ?thesis
    using h1 h2 transport_error_propagates [OF h1 h2, of no_files] by simp
qed




text \<open>
  Claim C4, as the specification states it, fails for a reply the handler cannot print:
  the object \<^verbatim>\<open>{"note": "\ud83d"}\<close> has no \<^verbatim>\<open>building_data\<close>, the print of its item at line 91
  raises \<^verbatim>\<open>UnicodeEncodeError\<close>, and \<^verbatim>\<open>mark_run_failed\<close> is never called.
\<close>

theorem no_building_data_counterexample:
  "post_reply demo_runtime_surrogate_note demo_context
      \<lparr>payload = \<lparr>model_id = ''m1'', version_id = ''v1''\<rparr>\<rparr> demo_inputs =
     Inr (PDict [(''note'', PStr lone_surrogate)])
   \<and> map_of [(''note'', PStr lone_surrogate)] ''building_data'' = None
   \<and> filter is_failed
        (trace (snd (run demo_runtime_surrogate_note demo_context demo_inputs no_files))) = []
   \<and> raised (run demo_runtime_surrogate_note demo_context demo_inputs no_files) =
       Some (Exn ''UnicodeEncodeError'' ''surrogates not allowed'')"
  by (simp add: run_def automate_function_def print_headers_def print_response_def
      and_then_def lift_def getitem0_def py_print_def py_items_def emit_def Let_def ok_def
      raised_def initial_world_def request_headers_def post_reply_def
      demo_runtime_surrogate_note_def demo_runtime_def demo_context_def demo_run_data_def
      demo_inputs_def lone_surrogate_def)

text \<open>
  Claim C4, amended. When the reply is an object whose \<^verbatim>\<open>building_data\<close> is absent or falsy,
  the handler writes no file, registers no file and never calls \<^verbatim>\<open>mark_run_success\<close>; and
  when the items of the reply can be printed (no key and no string value holds a lone
  surrogate, so that lines 88 to 91 return), it calls \<^verbatim>\<open>mark_run_failed\<close> once, with
  exactly the fixed message.
\<close>

theorem no_building_data_reported:
  assumes "triggers (automation_run_data ctx) = tr # rest"
    and "post_reply rt ctx tr inp = Inr (PDict kvs)"
    and "map_of kvs ''building_data'' = None
         \<or> (\<exists>v. map_of kvs ''building_data'' = Some v \<and> \<not> truthy v)"
  shows "filter is_file_write (trace (snd (run rt ctx inp fs))) = []
       \<and> filter is_store (trace (snd (run rt ctx inp fs))) = []
       \<and> filter is_success (trace (snd (run rt ctx inp fs))) = []
       \<and> files (snd (run rt ctx inp fs)) = fs
       \<and> (items_printable kvs \<longrightarrow>
            actions (run rt ctx inp fs) =
              [sent_request ctx tr inp,
               MarkRunFailed ''Automation failed: No building data could be retrieved!'']
          \<and> filter is_failed (trace (snd (run rt ctx inp fs))) =
              [MarkRunFailed ''Automation failed: No building data could be retrieved!'']
          \<and> raised (run rt ctx inp fs) =
              mark_run_failed ctx ''Automation failed: No building data could be retrieved!'')"
proof (cases "items_printable kvs")
  case True
  obtain ps qs where "run rt ctx inp fs = handle_response rt ctx (PDict kvs)
        \<lparr>trace = map Print ps @ [sent_request ctx tr inp] @ map Print qs, files = fs\<rparr>"
    using run_reply_object [OF assms(1,2) True] by blast
  then have "run rt ctx inp fs =
      (report (mark_run_failed ctx ''Automation failed: No building data could be retrieved!''),
       emit (MarkRunFailed ''Automation failed: No building data could be retrieved!'')
         \<lparr>trace = map Print ps @ [sent_request ctx tr inp] @ map Print qs, files = fs\<rparr>)"
    by (simp add: handle_no_data [OF assms(3)])
  then show ?thesis
    by (simp add: raised_report actions_def filter_prints sent_request_def emit_def)
next
  case False
  obtain e ps qs where "run rt ctx inp fs =
        (Inl e, \<lparr>trace = map Print ps @ [sent_request ctx tr inp] @ map Print qs, files = fs\<rparr>)"
    using run_reply_object_unprintable [OF assms(1,2) False] by blast
  then show ?thesis
    using False by (simp add: filter_prints sent_request_def)
qed

theorem no_building_data_reported_witness:
  "triggers (automation_run_data demo_context) =
     [\<lparr>payload = \<lparr>model_id = ''m1'', version_id = ''v1''\<rparr>\<rparr>]
   \<and> post_reply demo_runtime_no_data demo_context
        \<lparr>payload = \<lparr>model_id = ''m1'', version_id = ''v1''\<rparr>\<rparr> demo_inputs =
       Inr (PDict [(''building_data'', PList [])])
   \<and> map_of [(''building_data'', PList [])] ''building_data'' = Some (PList [])
   \<and> \<not> truthy (PList [])
   \<and> items_printable [(''building_data'', PList [])]
   \<and> filter is_failed (trace (snd (run demo_runtime_no_data demo_context demo_inputs no_files))) =
       [MarkRunFailed ''Automation failed: No building data could be retrieved!'']
   \<and> filter is_file_write (trace (snd (run demo_runtime_no_data demo_context demo_inputs no_files))) = []
   \<and> filter is_store (trace (snd (run demo_runtime_no_data demo_context demo_inputs no_files))) = []
   \<and> filter is_success (trace (snd (run demo_runtime_no_data demo_context demo_inputs no_files))) = []
   \<and> files (snd (run demo_runtime_no_data demo_context demo_inputs no_files)) = no_files"
proof -
  have h1: "triggers (automation_run_data demo_context) =
     [\<lparr>payload = \<lparr>model_id = ''m1'', version_id = ''v1''\<rparr>\<rparr>]"
    by (simp add: demo_context_def demo_run_data_def)
  have h2: "post_reply demo_runtime_no_data demo_context
        \<lparr>payload = \<lparr>model_id = ''m1'', version_id = ''v1''\<rparr>\<rparr> demo_inputs =
       Inr (PDict [(''building_data'', PList [])])"
    by (simp add: post_reply_def demo_runtime_no_data_def demo_runtime_def)
  have h3: "map_of [(''building_data'', PList [])] ''building_data'' = None
         \<or> (\<exists>v. map_of [(''building_data'', PList [])] ''building_data'' = Some v \<and> \<not> truthy v)"
    by simp
  have h4: "items_printable [(''building_data'', PList [])]"
    by (simp add: items_printable_def)
  show ?thesis
    using h1 h2 h4 no_building_data_reported [OF h1 h2 h3, of no_files] by simp
qed

section \<open>The rendering branch\<close>

text \<open>
  Claim C5. When \<^verbatim>\<open>building_data\<close> is truthy and one of the steps of the rendering branch
  raises (dataframe construction, HTML conversion, file write, file registration), the
  handler, which has printed the reply and entered the branch, catches the exception and
  calls \<^verbatim>\<open>mark_run_failed\<close> once, with the message
  \<^verbatim>\<open>Automation failed: \<close> followed by the text of the exception; \<^verbatim>\<open>mark_run_success\<close> is
  not called. The caught exception goes no further: the handler returns as the call of
  \<^verbatim>\<open>mark_run_failed\<close> returns.
\<close>

theorem rendering_error_reported:
  assumes "triggers (automation_run_data ctx) = tr # rest"
    and "post_reply rt ctx tr inp = Inr (PDict kvs)" and "items_printable kvs"
    and "map_of kvs ''building_data'' = Some bd" and "truthy bd"
    and "rendering_raises rt ctx bd e"
  shows "filter is_failed (trace (snd (run rt ctx inp fs))) =
           [MarkRunFailed (''Automation failed: '' @ exn_text e)]
       \<and> filter is_success (trace (snd (run rt ctx inp fs))) = []
       \<and> raised (run rt ctx inp fs) = mark_run_failed ctx (''Automation failed: '' @ exn_text e)"
proof -
  obtain ps qs where r: "run rt ctx inp fs = handle_response rt ctx (PDict kvs)
        \<lparr>trace = map Print ps @ [sent_request ctx tr inp] @ map Print qs, files = fs\<rparr>"
    using run_reply_object [OF assms(1,2,3)] by blast
  have "raised (run rt ctx inp fs) = mark_run_failed ctx (''Automation failed: '' @ exn_text e)"
    using handle_rendering_raises(1) [OF assms(4,5,6)]
    by (simp add: r raised_def report_def split: option.splits)
  then show ?thesis
    by (simp add: r handle_rendering_raises(2,3) [OF assms(4,5,6)] filter_prints
        sent_request_def)
qed

theorem rendering_error_reported_witness:
  "triggers (automation_run_data demo_context) =
     [\<lparr>payload = \<lparr>model_id = ''m1'', version_id = ''v1''\<rparr>\<rparr>]
   \<and> post_reply demo_runtime_ragged demo_context
        \<lparr>payload = \<lparr>model_id = ''m1'', version_id = ''v1''\<rparr>\<rparr> demo_inputs =
       Inr (PDict [(''building_data'', PDict [(''col'', PList [PInt 1, PInt 2])])])
   \<and> items_printable [(''building_data'', PDict [(''col'', PList [PInt 1, PInt 2])])]
   \<and> map_of [(''building_data'', PDict [(''col'', PList [PInt 1, PInt 2])])] ''building_data'' =
       Some (PDict [(''col'', PList [PInt 1, PInt 2])])
   \<and> truthy (PDict [(''col'', PList [PInt 1, PInt 2])])
   \<and> rendering_raises demo_runtime_ragged demo_context (PDict [(''col'', PList [PInt 1, PInt 2])])
        (Exn ''ValueError'' ''All arrays must be of the same length'')
   \<and> filter is_failed (trace (snd (run demo_runtime_ragged demo_context demo_inputs no_files))) =
       [MarkRunFailed ''Automation failed: All arrays must be of the same length'']
   \<and> filter is_success (trace (snd (run demo_runtime_ragged demo_context demo_inputs no_files))) = []
   \<and> raised (run demo_runtime_ragged demo_context demo_inputs no_files) = None"
proof -
  have h1: "triggers (automation_run_data demo_context) =
     [\<lparr>payload = \<lparr>model_id = ''m1'', version_id = ''v1''\<rparr>\<rparr>]"
    by (simp add: demo_context_def demo_run_data_def)
  have h2: "post_reply demo_runtime_ragged demo_context
        \<lparr>payload = \<lparr>model_id = ''m1'', version_id = ''v1''\<rparr>\<rparr> demo_inputs =
       Inr (PDict [(''building_data'', PDict [(''col'', PList [PInt 1, PInt 2])])])"
    by (simp add: post_reply_def demo_runtime_ragged_def demo_runtime_def demo_reply_def)
  have h3: "map_of [(''building_data'', PDict [(''col'', PList [PInt 1, PInt 2])])] ''building_data'' =
       Some (PDict [(''col'', PList [PInt 1, PInt 2])])"
    by simp
  have h4: "truthy (PDict [(''col'', PList [PInt 1, PInt 2])])" by simp
  have h5: "rendering_raises demo_runtime_ragged demo_context (PDict [(''col'', PList [PInt 1, PInt 2])])
        (Exn ''ValueError'' ''All arrays must be of the same length'')"
    by (simp add: rendering_raises_def demo_runtime_ragged_def demo_runtime_def)
  have h6: "mark_run_failed demo_context ''Automation failed: All arrays must be of the same length'' = None"
    by (simp add: demo_context_def returns_def)
  have hp: "items_printable [(''building_data'', PDict [(''col'', PList [PInt 1, PInt 2])])]"
    by (simp add: items_printable_def)
  show ?thesis
    using h1 h2 hp h3 h4 h5 h6 rendering_error_reported [OF h1 h2 hp h3 h4 h5, of no_files]
    by simp
qed

text \<open>
  Claim C9. The rendering branch is not atomic. When the handler has printed the reply and
  entered the branch, the file has been written, and then
  \<^verbatim>\<open>store_file_result\<close> or \<^verbatim>\<open>mark_run_success\<close> raises, \<^verbatim>\<open>mark_run_failed\<close> is called with
  that error's text, and \<^verbatim>\<open>building_data.html\<close> stays on disk with the rendered table: the
  file is written once and nothing removes it.
\<close>

theorem written_file_survives_later_error:
  assumes "triggers (automation_run_data ctx) = tr # rest"
    and "post_reply rt ctx tr inp = Inr (PDict kvs)" and "items_printable kvs"
    and "map_of kvs ''building_data'' = Some bd" and "truthy bd"
    and "pd_DataFrame rt bd = Inr df" and "df_to_html rt df = Inr html"
    and "open_write rt ''building_data.html'' html = Written"
    and "store_file_result ctx ''building_data_html'' = Some e
         \<or> (store_file_result ctx ''building_data_html'' = None
            \<and> mark_run_success ctx ''Building data table successfully generated!'' = Some e)"
  shows "filter is_failed (trace (snd (run rt ctx inp fs))) =
           [MarkRunFailed (''Automation failed: '' @ exn_text e)]
       \<and> filter is_file_write (trace (snd (run rt ctx inp fs))) =
           [FileWrite ''building_data.html'' html]
       \<and> files (snd (run rt ctx inp fs)) = fs(''building_data.html'' \<mapsto> html)"
proof -
  obtain ps qs where r: "run rt ctx inp fs = handle_response rt ctx (PDict kvs)
        \<lparr>trace = map Print ps @ [sent_request ctx tr inp] @ map Print qs, files = fs\<rparr>"
    using run_reply_object [OF assms(1,2,3)] by blast
  show ?thesis
    using assms(9)
    by (auto simp: r handle_truthy [OF assms(4,5)] try_except_def
        render_after_write [OF assms(4,6,7,8)] call_def emit_def report_def filter_prints
        sent_request_def)
qed

theorem written_file_survives_later_error_witness:
  "triggers (automation_run_data demo_context_store_fails) =
     [\<lparr>payload = \<lparr>model_id = ''m1'', version_id = ''v1''\<rparr>\<rparr>]
   \<and> post_reply demo_runtime demo_context_store_fails
        \<lparr>payload = \<lparr>model_id = ''m1'', version_id = ''v1''\<rparr>\<rparr> demo_inputs =
       Inr (PDict [(''building_data'', PDict [(''col'', PList [PInt 1, PInt 2])])])
   \<and> items_printable [(''building_data'', PDict [(''col'', PList [PInt 1, PInt 2])])]
   \<and> map_of [(''building_data'', PDict [(''col'', PList [PInt 1, PInt 2])])] ''building_data'' =
       Some (PDict [(''col'', PList [PInt 1, PInt 2])])
   \<and> truthy (PDict [(''col'', PList [PInt 1, PInt 2])])
   \<and> pd_DataFrame demo_runtime (PDict [(''col'', PList [PInt 1, PInt 2])]) =
       Inr (PDict [(''col'', PList [PInt 1, PInt 2])])
   \<and> df_to_html demo_runtime (PDict [(''col'', PList [PInt 1, PInt 2])]) = Inr demo_html
   \<and> open_write demo_runtime ''building_data.html'' demo_html = Written
   \<and> store_file_result demo_context_store_fails ''building_data_html'' =
       Some (Exn ''ValueError'' ''The given file path does not exist'')
   \<and> filter is_failed (trace (snd (run demo_runtime demo_context_store_fails demo_inputs no_files))) =
       [MarkRunFailed ''Automation failed: The given file path does not exist'']
   \<and> filter is_file_write (trace (snd (run demo_runtime demo_context_store_fails demo_inputs no_files))) =
       [FileWrite ''building_data.html'' demo_html]
   \<and> files (snd (run demo_runtime demo_context_store_fails demo_inputs no_files)) ''building_data.html'' =
       Some demo_html"
proof -
  have h1: "triggers (automation_run_data demo_context_store_fails) =
     [\<lparr>payload = \<lparr>model_id = ''m1'', version_id = ''v1''\<rparr>\<rparr>]"
    by (simp add: demo_context_store_fails_def demo_context_def demo_run_data_def)
  have h2: "post_reply demo_runtime demo_context_store_fails
        \<lparr>payload = \<lparr>model_id = ''m1'', version_id = ''v1''\<rparr>\<rparr> demo_inputs =
       Inr (PDict [(''building_data'', PDict [(''col'', PList [PInt 1, PInt 2])])])"
    by (simp add: post_reply_def demo_runtime_def demo_reply_def)
  have h3: "map_of [(''building_data'', PDict [(''col'', PList [PInt 1, PInt 2])])] ''building_data'' =
       Some (PDict [(''col'', PList [PInt 1, PInt 2])])"
    by simp
  have h4: "truthy (PDict [(''col'', PList [PInt 1, PInt 2])])" by simp
  have h5: "pd_DataFrame demo_runtime (PDict [(''col'', PList [PInt 1, PInt 2])]) =
       Inr (PDict [(''col'', PList [PInt 1, PInt 2])])"
    by (simp add: demo_runtime_def)
  have h6: "df_to_html demo_runtime (PDict [(''col'', PList [PInt 1, PInt 2])]) = Inr demo_html"
    by (simp add: demo_runtime_def)
  have h7: "open_write demo_runtime ''building_data.html'' demo_html = Written"
    by (simp add: demo_runtime_def)
  have h8: "store_file_result demo_context_store_fails ''building_data_html'' =
       Some (Exn ''ValueError'' ''The given file path does not exist'')"
    by (simp add: demo_context_store_fails_def demo_context_def)
  have h8': "store_file_result demo_context_store_fails ''building_data_html'' =
       Some (Exn ''ValueError'' ''The given file path does not exist'')
     \<or> (store_file_result demo_context_store_fails ''building_data_html'' = None
        \<and> mark_run_success demo_context_store_fails ''Building data table successfully generated!'' =
            Some (Exn ''ValueError'' ''The given file path does not exist''))"
    using h8 by simp
  have hp: "items_printable [(''building_data'', PDict [(''col'', PList [PInt 1, PInt 2])])]"
    by (simp add: items_printable_def)
  show ?thesis
    using h1 h2 hp h3 h4 h5 h6 h7 h8
      written_file_survives_later_error [OF h1 h2 hp h3 h4 h5 h6 h7 h8', of no_files]
    by simp
qed

text \<open>The run in which every call returns.\<close>

lemma run_success_path:
  assumes "triggers (automation_run_data ctx) = tr # rest"
    and "post_reply rt ctx tr inp = Inr (PDict kvs)" and "items_printable kvs"
    and "map_of kvs ''building_data'' = Some bd" and "truthy bd"
    and "pd_DataFrame rt bd = Inr df" and "df_to_html rt df = Inr html"
    and "open_write rt ''building_data.html'' html = Written"
    and "store_file_result ctx ''building_data_html'' = None"
    and "mark_run_success ctx ''Building data table successfully generated!'' = None"
  shows "actions (run rt ctx inp fs) =
           [sent_request ctx tr inp, FileWrite ''building_data.html'' html,
            StoreFileResult ''building_data_html'',
            MarkRunSuccess ''Building data table successfully generated!'']"
    and "files (snd (run rt ctx inp fs)) = fs(''building_data.html'' \<mapsto> html)"
    and "raised (run rt ctx inp fs) = None"
proof -
  obtain ps qs where r: "run rt ctx inp fs = handle_response rt ctx (PDict kvs)
        \<lparr>trace = map Print ps @ [sent_request ctx tr inp] @ map Print qs, files = fs\<rparr>"
    using run_reply_object [OF assms(1,2,3)] by blast
  have r': "run rt ctx inp fs = (Inr (),
      \<lparr>trace = map Print ps @ [sent_request ctx tr inp] @ map Print qs
                 @ [FileWrite ''building_data.html'' html,
                    StoreFileResult ''building_data_html'',
                    MarkRunSuccess ''Building data table successfully generated!''],
       files = fs(''building_data.html'' \<mapsto> html)\<rparr>)"
    by (simp add: r handle_truthy [OF assms(4,5)] try_except_def
        render_after_write [OF assms(4,6,7,8)] assms(9,10) report_def)
  show "actions (run rt ctx inp fs) =
           [sent_request ctx tr inp, FileWrite ''building_data.html'' html,
            StoreFileResult ''building_data_html'',
            MarkRunSuccess ''Building data table successfully generated!'']"
    by (simp add: r' actions_def filter_prints sent_request_def)
  show "files (snd (run rt ctx inp fs)) = fs(''building_data.html'' \<mapsto> html)"
    by (simp add: r')
  show "raised (run rt ctx inp fs) = None"
    by (simp add: r' raised_def)
qed

text \<open>
  Claim C1. On the success path the handler writes the rendered table to
  \<^verbatim>\<open>building_data.html\<close> and reports success, but the path it hands to
  \<^verbatim>\<open>store_file_result\<close> is \<^verbatim>\<open>building_data_html\<close>, with an underscore where the file name
  has a dot: the file it registers is not the file it wrote, and no file of the registered
  name exists after the run.
\<close>

theorem registered_path_is_not_the_written_file:
  "actions (run demo_runtime demo_context demo_inputs no_files) =
     [sent_request demo_context \<lparr>payload = \<lparr>model_id = ''m1'', version_id = ''v1''\<rparr>\<rparr> demo_inputs,
      FileWrite ''building_data.html'' demo_html,
      StoreFileResult ''building_data_html'',
      MarkRunSuccess ''Building data table successfully generated!'']
   \<and> files (snd (run demo_runtime demo_context demo_inputs no_files)) ''building_data.html'' =
       Some demo_html
   \<and> files (snd (run demo_runtime demo_context demo_inputs no_files)) ''building_data_html'' = None
   \<and> filter is_store (trace (snd (run demo_runtime demo_context demo_inputs no_files))) \<noteq>
       [StoreFileResult ''building_data.html'']"
proof -
  have h1: "triggers (automation_run_data demo_context) =
     [\<lparr>payload = \<lparr>model_id = ''m1'', version_id = ''v1''\<rparr>\<rparr>]"
    by (simp add: demo_context_def demo_run_data_def)
  have h2: "post_reply demo_runtime demo_context
        \<lparr>payload = \<lparr>model_id = ''m1'', version_id = ''v1''\<rparr>\<rparr> demo_inputs =
       Inr (PDict [(''building_data'', PDict [(''col'', PList [PInt 1, PInt 2])])])"
    by (simp add: post_reply_def demo_runtime_def demo_reply_def)
  have h3: "map_of [(''building_data'', PDict [(''col'', PList [PInt 1, PInt 2])])] ''building_data'' =
       Some (PDict [(''col'', PList [PInt 1, PInt 2])])"
    by simp
  have h4: "truthy (PDict [(''col'', PList [PInt 1, PInt 2])])" by simp
  have h5: "pd_DataFrame demo_runtime (PDict [(''col'', PList [PInt 1, PInt 2])]) =
       Inr (PDict [(''col'', PList [PInt 1, PInt 2])])"
    by (simp add: demo_runtime_def)
  have h6: "df_to_html demo_runtime (PDict [(''col'', PList [PInt 1, PInt 2])]) = Inr demo_html"
    by (simp add: demo_runtime_def)
  have h7: "open_write demo_runtime ''building_data.html'' demo_html = Written"
    by (simp add: demo_runtime_def)
  have h8: "store_file_result demo_context ''building_data_html'' = None"
    by (simp add: demo_context_def returns_def)
  have h9: "mark_run_success demo_context ''Building data table successfully generated!'' = None"
    by (simp add: demo_context_def returns_def)
  have hp: "items_printable [(''building_data'', PDict [(''col'', PList [PInt 1, PInt 2])])]"
    by (simp add: items_printable_def)
  note a = run_success_path [OF h1 h2 hp h3 h4 h5 h6 h7 h8 h9, of no_files]
  have "filter is_store (trace (snd (run demo_runtime demo_context demo_inputs no_files))) =
        filter is_store (actions (run demo_runtime demo_context demo_inputs no_files))"
    by (simp add: actions_def) (rule filter_cong, auto elim: is_store.elims)
  then show ?thesis
    using a by (simp add: no_files_def sent_request_def)
qed

section \<open>The request\<close>

text \<open>
  Claim C6. The body of the request a run sends is the mapping with the single key
  \<^verbatim>\<open>datafusr_config\<close>, whose value holds the constant project name, the unwrapped speckle
  token, and the source URL: server URL, \<^verbatim>\<open>/projects/\<close>, project id, \<^verbatim>\<open>/models/\<close>, model id,
  \<^verbatim>\<open>@\<close> and version id, concatenated with nothing added or changed. It is the one body
  posted, for every context that has a trigger to read the ids from.
\<close>

theorem request_body_exact:
  assumes "triggers (automation_run_data ctx) = tr # rest"
  shows "posted_bodies (run rt ctx inp fs) =
     [PDict [(''datafusr_config'', PDict [
        (''project_name'', PStr ''MEPPostprocessingProject''),
        (''source_url'',
           PStr (speckle_server_url (automation_run_data ctx) @ ''/projects/''
                 @ project_id (automation_run_data ctx) @ ''/models/''
                 @ model_id (payload tr) @ ''@'' @ version_id (payload tr))),
        (''speckle_token'', PStr (get_secret_value (speckle_token inp)))])]]"
  by (simp add: posted_bodies_def run_requests [OF assms] request_data_def)

theorem request_body_exact_witness:
  "triggers (automation_run_data demo_context) =
     [\<lparr>payload = \<lparr>model_id = ''m1'', version_id = ''v1''\<rparr>\<rparr>]
   \<and> posted_bodies (run demo_runtime demo_context demo_inputs no_files) =
     [PDict [(''datafusr_config'', PDict [
        (''project_name'', PStr ''MEPPostprocessingProject''),
        (''source_url'', PStr ''https://speckle.example/projects/p1/models/m1@v1''),
        (''speckle_token'', PStr ''speckle-secret'')])]]"
proof -
  have h: "triggers (automation_run_data demo_context) =
     [\<lparr>payload = \<lparr>model_id = ''m1'', version_id = ''v1''\<rparr>\<rparr>]"
    by (simp add: demo_context_def demo_run_data_def)
  show ?thesis
    using h request_body_exact [OF h, of demo_runtime demo_inputs no_files]
    by (simp add: demo_context_def demo_run_data_def demo_inputs_def)
qed

text \<open>
  Claim C7, as the specification states it, fails: the headers of the request are not the
  mapping with \<^verbatim>\<open>enable-logging: false\<close>, since the handler sends the string \<^verbatim>\<open>False\<close>; and
  a run without a trigger issues no POST at all.
\<close>

theorem spec_headers_counterexample:
  "map map_of (posted_headers (run demo_runtime demo_context demo_inputs no_files)) \<noteq>
     [map_of (spec_headers ''alice'' ''api-secret'')]
   \<and> posted_urls (run demo_runtime demo_context_no_trigger demo_inputs no_files) = []"
proof -
  have h: "triggers (automation_run_data demo_context) =
     [\<lparr>payload = \<lparr>model_id = ''m1'', version_id = ''v1''\<rparr>\<rparr>]"
    by (simp add: demo_context_def demo_run_data_def)
  have sent: "posted_headers (run demo_runtime demo_context demo_inputs no_files) =
      [request_headers demo_inputs]"
    by (simp add: posted_headers_def run_requests [OF h])
  have "map_of (request_headers demo_inputs) ''enable-logging'' = Some ''False''"
    by (simp add: request_headers_def)
  moreover have "map_of (spec_headers ''alice'' ''api-secret'') ''enable-logging'' = Some ''false''"
    by (simp add: spec_headers_def)
  ultimately have "map_of (request_headers demo_inputs) ''enable-logging'' \<noteq>
      map_of (spec_headers ''alice'' ''api-secret'') ''enable-logging''"
    by simp
  then have "map_of (request_headers demo_inputs) \<noteq> map_of (spec_headers ''alice'' ''api-secret'')"
    by (rule contrapos_nn) simp
  moreover have "triggers (automation_run_data demo_context_no_trigger) = []"
    by (simp add: demo_context_no_trigger_def demo_context_def)
  then have "posted_urls (run demo_runtime demo_context_no_trigger demo_inputs no_files) = []"
    by (simp add: posted_urls_def run_empty_triggers initial_world_def)
  ultimately show ?thesis by (simp add: sent)
qed

text \<open>
  Claim C7, amended. Every run that has a trigger issues its POST to exactly the API URL
  followed by \<^verbatim>\<open>/from_datafusr\<close>, with the headers \<^verbatim>\<open>content-type: application/json\<close>,
  \<^verbatim>\<open>enable-logging: False\<close>, \<^verbatim>\<open>source-application: RoomBook\<close>, \<^verbatim>\<open>return-type: tables\<close>, the
  username and the unwrapped API token, in this order.
\<close>

theorem request_url_and_headers:
  assumes "triggers (automation_run_data ctx) = tr # rest"
  shows "posted_urls (run rt ctx inp fs) = [get_secret_value (api_url inp) @ ''/from_datafusr'']
       \<and> posted_headers (run rt ctx inp fs) =
           [[(''content-type'', ''application/json''),
             (''enable-logging'', ''False''),
             (''source-application'', ''RoomBook''),
             (''return-type'', ''tables''),
             (''username'', username inp),
             (''token'', get_secret_value (api_token inp))]]"
  by (simp add: posted_urls_def posted_headers_def run_requests [OF assms] request_url_def
      request_headers_def)

theorem request_url_and_headers_witness:
  "triggers (automation_run_data demo_context) =
     [\<lparr>payload = \<lparr>model_id = ''m1'', version_id = ''v1''\<rparr>\<rparr>]
   \<and> posted_urls (run demo_runtime demo_context demo_inputs no_files) =
       [''https://api.example/from_datafusr'']
   \<and> posted_headers (run demo_runtime demo_context demo_inputs no_files) =
       [[(''content-type'', ''application/json''),
         (''enable-logging'', ''False''),
         (''source-application'', ''RoomBook''),
         (''return-type'', ''tables''),
         (''username'', ''alice''),
         (''token'', ''api-secret'')]]"
proof -
  have h: "triggers (automation_run_data demo_context) =
     [\<lparr>payload = \<lparr>model_id = ''m1'', version_id = ''v1''\<rparr>\<rparr>]"
    by (simp add: demo_context_def demo_run_data_def)
  show ?thesis
    using h request_url_and_headers [OF h, of demo_runtime demo_inputs no_files]
    by (simp add: demo_inputs_def)
qed

section \<open>One request, one outcome\<close>

text \<open>
  Claim C2, as the specification states it, fails in five ways: a run without a trigger
  issues no request and reports nothing; a run whose POST raises, whose reply is a JSON
  array, or whose reply is an object with an item that cannot be printed, reports nothing;
  and a run in which \<^verbatim>\<open>mark_run_success\<close> raises calls both reporting methods.
\<close>

theorem one_outcome_one_post_counterexample:
  "\<not> exactly_one_post (run demo_runtime demo_context_no_trigger demo_inputs no_files)
   \<and> \<not> exactly_one_outcome (run demo_runtime demo_context_no_trigger demo_inputs no_files)
   \<and> \<not> exactly_one_outcome (run demo_runtime_offline demo_context demo_inputs no_files)
   \<and> \<not> exactly_one_outcome (run demo_runtime_array demo_context demo_inputs no_files)
   \<and> \<not> exactly_one_outcome (run demo_runtime_surrogate_note demo_context demo_inputs no_files)
   \<and> outcome_calls (run demo_runtime demo_context_success_fails demo_inputs no_files) =
       [MarkRunSuccess ''Building data table successfully generated!'',
        MarkRunFailed ''Automation failed: status update rejected'']
   \<and> \<not> exactly_one_outcome (run demo_runtime demo_context_success_fails demo_inputs no_files)"
proof -
  have none: "triggers (automation_run_data demo_context_no_trigger) = []"
    by (simp add: demo_context_no_trigger_def demo_context_def)
  have a: "run demo_runtime demo_context_no_trigger demo_inputs no_files =
      (Inl (Exn ''IndexError'' ''list index out of range''), initial_world no_files)"
    by (rule run_empty_triggers [OF none])
  have h: "triggers (automation_run_data demo_context) =
     [\<lparr>payload = \<lparr>model_id = ''m1'', version_id = ''v1''\<rparr>\<rparr>]"
    by (simp add: demo_context_def demo_run_data_def)
  have "post_reply demo_runtime_offline demo_context
        \<lparr>payload = \<lparr>model_id = ''m1'', version_id = ''v1''\<rparr>\<rparr> demo_inputs =
       Inl (Exn ''ConnectionError'' ''connection refused'')"
    by (simp add: post_reply_def demo_runtime_offline_def demo_runtime_def)
  then obtain ps where b: "run demo_runtime_offline demo_context demo_inputs no_files =
      (Inl (Exn ''ConnectionError'' ''connection refused''),
       \<lparr>trace = map Print ps @ [sent_request demo_context
           \<lparr>payload = \<lparr>model_id = ''m1'', version_id = ''v1''\<rparr>\<rparr> demo_inputs], files = no_files\<rparr>)"
    using run_post_raises [OF h] by blast
  have "post_reply demo_runtime_array demo_context
        \<lparr>payload = \<lparr>model_id = ''m1'', version_id = ''v1''\<rparr>\<rparr> demo_inputs = Inr (PList [PInt 1])"
    by (simp add: post_reply_def demo_runtime_array_def demo_runtime_def)
  moreover have "\<And>kvs. PList [PInt 1] \<noteq> PDict kvs" by simp
  ultimately obtain e' ps' qs' where c: "run demo_runtime_array demo_context demo_inputs no_files =
      (Inl e',
       \<lparr>trace = map Print ps' @ [sent_request demo_context
           \<lparr>payload = \<lparr>model_id = ''m1'', version_id = ''v1''\<rparr>\<rparr> demo_inputs] @ map Print qs',
        files = no_files\<rparr>)"
    using run_reply_not_object [OF h] by blast
  have "post_reply demo_runtime_surrogate_note demo_context
        \<lparr>payload = \<lparr>model_id = ''m1'', version_id = ''v1''\<rparr>\<rparr> demo_inputs =
       Inr (PDict [(''note'', PStr lone_surrogate)])"
    by (simp add: post_reply_def demo_runtime_surrogate_note_def demo_runtime_def)
  moreover have "\<not> items_printable [(''note'', PStr lone_surrogate)]"
    by (simp add: items_printable_def lone_surrogate_def)
  ultimately obtain e'' ps3 qs3 where
    s: "run demo_runtime_surrogate_note demo_context demo_inputs no_files =
      (Inl e'',
       \<lparr>trace = map Print ps3 @ [sent_request demo_context
           \<lparr>payload = \<lparr>model_id = ''m1'', version_id = ''v1''\<rparr>\<rparr> demo_inputs] @ map Print qs3,
        files = no_files\<rparr>)"
    using run_reply_object_unprintable [OF h] by blast
  have h': "triggers (automation_run_data demo_context_success_fails) =
     [\<lparr>payload = \<lparr>model_id = ''m1'', version_id = ''v1''\<rparr>\<rparr>]"
    by (simp add: demo_context_success_fails_def demo_context_def demo_run_data_def)
  have "post_reply demo_runtime demo_context_success_fails
        \<lparr>payload = \<lparr>model_id = ''m1'', version_id = ''v1''\<rparr>\<rparr> demo_inputs =
       Inr (PDict [(''building_data'', PDict [(''col'', PList [PInt 1, PInt 2])])])"
    by (simp add: post_reply_def demo_runtime_def demo_reply_def)
  moreover have "items_printable [(''building_data'', PDict [(''col'', PList [PInt 1, PInt 2])])]"
    by (simp add: items_printable_def)
  ultimately obtain ps'' qs'' where
    d: "run demo_runtime demo_context_success_fails demo_inputs no_files =
      handle_response demo_runtime demo_context_success_fails
        (PDict [(''building_data'', PDict [(''col'', PList [PInt 1, PInt 2])])])
        \<lparr>trace = map Print ps'' @ [sent_request demo_context_success_fails
           \<lparr>payload = \<lparr>model_id = ''m1'', version_id = ''v1''\<rparr>\<rparr> demo_inputs] @ map Print qs'',
         files = no_files\<rparr>"
    using run_reply_object [OF h'] by blast
  have d': "outcome_calls (run demo_runtime demo_context_success_fails demo_inputs no_files) =
       [MarkRunSuccess ''Building data table successfully generated!'',
        MarkRunFailed ''Automation failed: status update rejected'']"
    unfolding outcome_calls_def d
    by (simp add: handle_response_def render_and_store_def try_except_def
        and_then_def lift_def py_get_def py_subscript_def write_file_def call_def emit_def
        Let_def demo_runtime_def demo_context_success_fails_def demo_context_def returns_def
        filter_prints sent_request_def)
  show ?thesis
    by (simp add: d' exactly_one_outcome_def)
       (simp add: a b c s exactly_one_post_def exactly_one_outcome_def outcome_calls_def
        initial_world_def filter_prints sent_request_def)
qed

text \<open>
  Claim C2, amended. Every run that has a trigger issues exactly one HTTP POST; and when
  the reply is a JSON object whose items can be printed (no key and no string value holds
  a lone surrogate, so that lines 88 to 91 return) and the call of \<^verbatim>\<open>mark_run_success\<close>,
  when it is made, returns, exactly one call of \<^verbatim>\<open>mark_run_success\<close> or \<^verbatim>\<open>mark_run_failed\<close>
  is made in the run.
\<close>

theorem one_post_and_one_outcome:
  assumes "triggers (automation_run_data ctx) = tr # rest"
  shows "exactly_one_post (run rt ctx inp fs)
       \<and> (\<forall>kvs. post_reply rt ctx tr inp = Inr (PDict kvs) \<and> items_printable kvs
                 \<and> (MarkRunSuccess ''Building data table successfully generated!''
                       \<in> set (trace (snd (run rt ctx inp fs)))
                     \<longrightarrow> mark_run_success ctx ''Building data table successfully generated!''
                           = None)
             \<longrightarrow> exactly_one_outcome (run rt ctx inp fs))"
proof -
  have "exactly_one_post (run rt ctx inp fs)"
    by (simp add: exactly_one_post_def run_requests [OF assms])
  moreover have "exactly_one_outcome (run rt ctx inp fs)"
    if reply: "post_reply rt ctx tr inp = Inr (PDict kvs)"
      and printable: "items_printable kvs"
      and success: "MarkRunSuccess ''Building data table successfully generated!''
                       \<in> set (trace (snd (run rt ctx inp fs)))
                     \<longrightarrow> mark_run_success ctx ''Building data table successfully generated!''
                           = None"
    for kvs
  proof -
    obtain ps qs where r: "run rt ctx inp fs = handle_response rt ctx (PDict kvs)
        \<lparr>trace = map Print ps @ [sent_request ctx tr inp] @ map Print qs, files = fs\<rparr>"
      using run_reply_object [OF assms reply printable] by blast
    have "length (filter (\<lambda>ev. is_success ev \<or> is_failed ev)
                   (trace (snd (handle_response rt ctx (PDict kvs)
                      \<lparr>trace = map Print ps @ [sent_request ctx tr inp] @ map Print qs,
                       files = fs\<rparr>)))) =
          Suc (length (filter (\<lambda>ev. is_success ev \<or> is_failed ev)
                   (trace \<lparr>trace = map Print ps @ [sent_request ctx tr inp] @ map Print qs,
                       files = fs\<rparr>)))"
      by (rule handle_one_outcome) (use success r in simp)
    then show ?thesis
      by (simp add: r exactly_one_outcome_def outcome_calls_def filter_prints sent_request_def)
  qed
  ultimately show ?thesis by blast
qed

theorem one_post_and_one_outcome_witness:
  "triggers (automation_run_data demo_context) =
     [\<lparr>payload = \<lparr>model_id = ''m1'', version_id = ''v1''\<rparr>\<rparr>]
   \<and> post_reply demo_runtime demo_context
        \<lparr>payload = \<lparr>model_id = ''m1'', version_id = ''v1''\<rparr>\<rparr> demo_inputs =
       Inr (PDict [(''building_data'', PDict [(''col'', PList [PInt 1, PInt 2])])])
   \<and> items_printable [(''building_data'', PDict [(''col'', PList [PInt 1, PInt 2])])]
   \<and> mark_run_success demo_context ''Building data table successfully generated!'' = None
   \<and> exactly_one_post (run demo_runtime demo_context demo_inputs no_files)
   \<and> exactly_one_outcome (run demo_runtime demo_context demo_inputs no_files)"
proof -
  have h1: "triggers (automation_run_data demo_context) =
     [\<lparr>payload = \<lparr>model_id = ''m1'', version_id = ''v1''\<rparr>\<rparr>]"
    by (simp add: demo_context_def demo_run_data_def)
  have h2: "post_reply demo_runtime demo_context
        \<lparr>payload = \<lparr>model_id = ''m1'', version_id = ''v1''\<rparr>\<rparr> demo_inputs =
       Inr (PDict [(''building_data'', PDict [(''col'', PList [PInt 1, PInt 2])])])"
    by (simp add: post_reply_def demo_runtime_def demo_reply_def)
  have h3: "mark_run_success demo_context ''Building data table successfully generated!'' = None"
    by (simp add: demo_context_def returns_def)
  have h4: "items_printable [(''building_data'', PDict [(''col'', PList [PInt 1, PInt 2])])]"
    by (simp add: items_printable_def)
  show ?thesis
    using h1 h2 h3 h4 one_post_and_one_outcome [OF h1, of demo_runtime demo_inputs no_files]
    by simp
qed

end
